theory Spec2Isabelle
  imports Complex_Main
begin

section \<open>JavaScript values\<close>

text \<open>
  The fee percentages and the \<open>data\<close> columns are JSON: a value is a number, a string,
  a boolean, an object, \<open>null\<close> or \<open>undefined\<close>. A number value is held as the rational
  it stands for (the fee functions compare and return such values, they do not compute
  with them); \<open>NaN\<close> and the infinities are not among these values.
\<close>

datatype jsvalue =
    Undefined
  | Null
  | Number rat
  | String string
  | Boolean bool
  | Object "(string \<times> jsvalue) list"

type_synonym jsobject = "(string \<times> jsvalue) list"

text \<open>lodash \<open>isNumber\<close>.\<close>

fun isNumber :: "jsvalue \<Rightarrow> bool" where
  "isNumber (Number n) = True"
| "isNumber v = False"

text \<open>The truth value JavaScript gives a value in a condition.\<close>

fun truthy :: "jsvalue \<Rightarrow> bool" where
  "truthy Undefined = False"
| "truthy Null = False"
| "truthy (Number n) = (n \<noteq> 0)"
| "truthy (String s) = (s \<noteq> [])"
| "truthy (Boolean b) = b"
| "truthy (Object kvs) = True"

text \<open>\<open>Array.prototype.find\<close>: the first element that satisfies the predicate, or \<open>undefined\<close>.\<close>

fun array_find :: "(jsvalue \<Rightarrow> bool) \<Rightarrow> jsvalue list \<Rightarrow> jsvalue" where
  "array_find p [] = Undefined"
| "array_find p (v # vs) = (if p v then v else array_find p vs)"

text \<open>\<open>obj?.key\<close> on a column that holds a JSON object or \<open>null\<close>.\<close>

definition optProp :: "jsobject option \<Rightarrow> string \<Rightarrow> jsvalue" where
  "optProp obj key =
     (case obj of
        None \<Rightarrow> Undefined
      | Some kvs \<Rightarrow> (case map_of kvs key of None \<Rightarrow> Undefined | Some v \<Rightarrow> v))"

text \<open>
  The object spread \<open>{ ...a, ...b }\<close>: the keys of \<open>a\<close> in their order, a value replaced
  by the one \<open>b\<close> has for the key, then the keys that only \<open>b\<close> has.
\<close>

definition spread :: "jsobject \<Rightarrow> jsobject \<Rightarrow> jsobject" where
  "spread a b =
     map (\<lambda>(k, v). (k, case map_of b k of None \<Rightarrow> v | Some w \<Rightarrow> w)) a
     @ filter (\<lambda>(k, w). map_of a k = None) b"

text \<open>
  An \<open>Error\<close> carries its message. \<open>OrderAlreadyProcessed id date\<close> is the \<open>Error\<close> whose
  message is \<open>This order (#id) has already been processed at <date>\<close>.
\<close>

datatype error = Error string | TypeError | OrderAlreadyProcessed nat nat

section \<open>Legacy payment method types\<close>

text \<open>
  \<open>PAYMENT_METHOD_SERVICE\<close> and \<open>PAYMENT_METHOD_TYPE\<close> are declared in
  \<open>constants/paymentMethods\<close>; the members the conversion functions name are the
  constructors here, prefixed because the three enumerations share member names.
\<close>

datatype PAYMENT_METHOD_SERVICE =
    SERVICE_STRIPE
  | SERVICE_OPENCOLLECTIVE
  | SERVICE_BRAINTREE
  | SERVICE_PAYPAL

datatype PAYMENT_METHOD_TYPE =
    TYPE_CREDITCARD
  | TYPE_GIFT_CARD
  | TYPE_HOST
  | TYPE_COLLECTIVE
  | TYPE_PREPAID
  | TYPE_PAYPAL
  | TYPE_PAYMENT
  | TYPE_MANUAL

datatype PaymentMethodLegacyTypeEnum =
    CREDIT_CARD
  | GIFT_CARD
  | PREPAID_BUDGET
  | ACCOUNT_BALANCE
  | PAYPAL
  | BRAINTREE_PAYPAL
  | BANK_TRANSFER
  | ADDED_FUNDS

text \<open>
  \<open>getLegacyPaymentMethodType\<close>: the chain of \<open>if\<close>/\<open>else if\<close> in the order of the
  source; a pair that no branch returns for falls through to the warning and the
  function returns \<open>undefined\<close> (\<open>None\<close>).
\<close>

definition getLegacyPaymentMethodType ::
  "PAYMENT_METHOD_SERVICE \<times> PAYMENT_METHOD_TYPE \<Rightarrow> PaymentMethodLegacyTypeEnum option" where
  "getLegacyPaymentMethodType pm =
     (let service = fst pm; type = snd pm in
      if service = SERVICE_STRIPE then
        (if type = TYPE_CREDITCARD then Some CREDIT_CARD else None)
      else if service = SERVICE_OPENCOLLECTIVE then
        (if type = TYPE_GIFT_CARD then Some GIFT_CARD
         else if type = TYPE_HOST then Some ADDED_FUNDS
         else if type = TYPE_COLLECTIVE then Some ACCOUNT_BALANCE
         else if type = TYPE_PREPAID then Some PREPAID_BUDGET
         else None)
      else if service = SERVICE_BRAINTREE \<and> type = TYPE_PAYPAL then Some BRAINTREE_PAYPAL
      else if service = SERVICE_PAYPAL \<and> type = TYPE_PAYMENT then Some PAYPAL
      else None)"

fun getServiceTypeFromLegacyPaymentMethodType ::
  "PaymentMethodLegacyTypeEnum \<Rightarrow> PAYMENT_METHOD_SERVICE \<times> PAYMENT_METHOD_TYPE" where
  "getServiceTypeFromLegacyPaymentMethodType CREDIT_CARD = (SERVICE_STRIPE, TYPE_CREDITCARD)"
| "getServiceTypeFromLegacyPaymentMethodType GIFT_CARD = (SERVICE_OPENCOLLECTIVE, TYPE_GIFT_CARD)"
| "getServiceTypeFromLegacyPaymentMethodType PREPAID_BUDGET = (SERVICE_OPENCOLLECTIVE, TYPE_PREPAID)"
| "getServiceTypeFromLegacyPaymentMethodType ACCOUNT_BALANCE = (SERVICE_OPENCOLLECTIVE, TYPE_COLLECTIVE)"
| "getServiceTypeFromLegacyPaymentMethodType ADDED_FUNDS = (SERVICE_OPENCOLLECTIVE, TYPE_HOST)"
| "getServiceTypeFromLegacyPaymentMethodType BANK_TRANSFER = (SERVICE_OPENCOLLECTIVE, TYPE_MANUAL)"
| "getServiceTypeFromLegacyPaymentMethodType PAYPAL = (SERVICE_PAYPAL, TYPE_PAYMENT)"
| "getServiceTypeFromLegacyPaymentMethodType BRAINTREE_PAYPAL = (SERVICE_BRAINTREE, TYPE_PAYPAL)"

section \<open>Double-precision arithmetic\<close>

text \<open>
  JavaScript computes with IEEE 754 binary64 Numbers. A finite Number is the rational it
  stands for; an operation is the exact operation followed by the rounding to the nearest
  Number, ties to the even significand (\<open>roundTiesToEven\<close>): 53 significant bits,
  exponents from -1022 (below that the spacing stays \<open>2 powi -1074\<close>) up to 1023, and
  an infinity when the rounded value reaches \<open>2 powi 1024\<close>. \<open>NaN\<close> and the sign of zero
  are not modelled: \<open>calcFee\<close> on finite arguments yields no \<open>NaN\<close>, and \<open>-0\<close> is the
  number 0.
\<close>

datatype number = Finite rat | PosInfinity | NegInfinity

text \<open>\<open>floorlog2 n\<close> is the position of the highest bit of \<open>n\<close>, and \<open>exponent x\<close> the
  binary exponent of \<open>x \<noteq> 0\<close>: \<open>2 powi exponent x \<le> \<bar>x\<bar> < 2 powi (exponent x + 1)\<close>.\<close>

fun floorlog2 :: "nat \<Rightarrow> nat" where
  "floorlog2 n = (if n < 2 then 0 else Suc (floorlog2 (n div 2)))"

declare floorlog2.simps [simp del]

definition exponent :: "rat \<Rightarrow> int" where
  "exponent x =
     (if 1 \<le> \<bar>x\<bar> then int (floorlog2 (nat \<lfloor>\<bar>x\<bar>\<rfloor>))
      else
        (let k = int (floorlog2 (nat \<lfloor>1 / \<bar>x\<bar>\<rfloor>))
         in if 2 powi (- k) \<le> \<bar>x\<bar> then - k else - k - 1))"

definition roundTiesToEven :: "rat \<Rightarrow> int" where
  "roundTiesToEven r =
     (let f = \<lfloor>r\<rfloor>; d = r - of_int f
      in if d < 1 / 2 then f else if 1 / 2 < d then f + 1 else if even f then f else f + 1)"

text \<open>The Number nearest to a real value: a whole multiple of the spacing \<open>ulp\<close> at \<open>x\<close>.\<close>

definition toNumber :: "rat \<Rightarrow> number" where
  "toNumber x =
     (if x = 0 then Finite 0
      else
        (let ulp = 2 powi (max (exponent x) (- 1022) - 52);
             y = of_int (roundTiesToEven (x / ulp)) * ulp
         in if 2 powi 1024 \<le> y then PosInfinity
            else if y \<le> - (2 powi 1024) then NegInfinity
            else Finite y))"

text \<open>
  \<open>a * b\<close> on two finite Numbers, and \<open>n / b\<close> for a finite \<open>b\<close> other than 0
  (\<open>calcFee\<close> divides by 100).
\<close>

definition multiply :: "rat \<Rightarrow> rat \<Rightarrow> number" where
  "multiply a b = toNumber (a * b)"

definition divide_by :: "number \<Rightarrow> rat \<Rightarrow> number" where
  "divide_by n b =
     (case n of
        Finite a \<Rightarrow> toNumber (a / b)
      | PosInfinity \<Rightarrow> (if 0 < b then PosInfinity else NegInfinity)
      | NegInfinity \<Rightarrow> (if 0 < b then NegInfinity else PosInfinity))"

text \<open>
  \<open>Math.round\<close>: the integer nearest to the Number, a half rounded towards positive
  infinity; an infinity stays.
\<close>

definition Math_round :: "number \<Rightarrow> number" where
  "Math_round n =
     (case n of
        Finite q \<Rightarrow> Finite (of_int \<lfloor>q + 1 / 2\<rfloor>)
      | PosInfinity \<Rightarrow> PosInfinity
      | NegInfinity \<Rightarrow> NegInfinity)"

section \<open>Fees\<close>

text \<open>
  \<open>calcFee(amount, fee)\<close> is \<open>Math.round((amount * fee) / 100)\<close>: a product and a quotient
  in double precision, each rounded, then \<open>Math.round\<close>. The arguments are the values of
  the two Numbers passed: an integer amount and the percentage (a percentage written
  \<open>0.7\<close> is the Number \<open>toNumber (7 / 10)\<close>).
\<close>

definition calcFee :: "int \<Rightarrow> rat \<Rightarrow> number" where
  "calcFee amount fee = Math_round (divide_by (multiply (of_int amount) fee) 100)"

section \<open>Asynchronous operations on the database\<close>

text \<open>
  An \<open>async\<close> function reads and writes the database and either returns a value or
  throws. It is a function from the state to the outcome and the state it leaves:
  what was written before a throw stays written (no operation here runs inside a
  database transaction).
\<close>

type_synonym ('a, 's) io = "'s \<Rightarrow> (error + 'a) \<times> 's"

definition resolve :: "'a \<Rightarrow> ('a, 's) io" where
  "resolve x s = (Inr x, s)"

definition reject :: "error \<Rightarrow> ('a, 's) io" where
  "reject e s = (Inl e, s)"

definition await :: "('a, 's) io \<Rightarrow> ('a \<Rightarrow> ('b, 's) io) \<Rightarrow> ('b, 's) io" where
  "await m f s = (case m s of (Inl e, s') \<Rightarrow> (Inl e, s') | (Inr x, s') \<Rightarrow> f x s')"

section \<open>Ledger transactions\<close>

record user =
  user_id :: nat

text \<open>
  The columns of a ledger row that \<open>createRefundTransaction\<close> reads or sets. The object
  that \<open>buildRefund\<close> builds has the fields of \<open>txfields\<close>; a row of the table has, in
  addition, its id, its type (\<open>CREDIT\<close> or \<open>DEBIT\<close>), its group, the id of its refund and
  the collective whose gift card paid for it.
  Amounts and fees are integers (cents), \<open>data\<close> is a JSON object or \<open>null\<close>.
\<close>

record txfields =
  currency :: string
  FromCollectiveId :: "nat option"
  CollectiveId :: "nat option"
  HostCollectiveId :: "nat option"
  PaymentMethodId :: "nat option"
  OrderId :: "nat option"
  ExpenseId :: "nat option"
  hostCurrencyFxRate :: rat
  hostCurrency :: string
  hostFeeInHostCurrency :: int
  platformFeeInHostCurrency :: int
  paymentProcessorFeeInHostCurrency :: int
  kind :: "string option"
  CreatedByUserId :: "nat option"
  description :: string
  data :: "jsobject option"
  amount :: int
  amountInHostCurrency :: int
  netAmountInCollectiveCurrency :: int
  isRefund :: bool

record transaction = txfields +
  id' :: nat
  type' :: string
  TransactionGroup :: string
  RefundTransactionId :: "nat option"
  UsingGiftCardFromCollectiveId :: "nat option"

text \<open>The table \<open>Transactions\<close>: its rows, in the order the database holds them.\<close>

type_synonym db = "transaction list"

text \<open>An id in a condition: \<open>null\<close> and \<open>0\<close> are falsy.\<close>

definition truthy_id :: "nat option \<Rightarrow> bool" where
  "truthy_id i = (case i of None \<Rightarrow> False | Some n \<Rightarrow> n \<noteq> 0)"

text \<open>
  \<open>models.Transaction.findOne({ where: { TransactionGroup, id: { [Op.ne]: transaction.id } } })\<close>:
  a row of the same group with another id, the first one the table holds, or \<open>null\<close>.
\<close>

definition findOne_otherOfGroup :: "transaction \<Rightarrow> db \<Rightarrow> transaction option" where
  "findOne_otherOfGroup transaction rows =
     List.find (\<lambda>r. TransactionGroup r = TransactionGroup transaction \<and> id' r \<noteq> id' transaction) rows"

text \<open>
  \<open>models.Transaction.findAll({ order: ['id'], where: { [Op.or]: [...] } })\<close>: the rows of
  either group, ordered by id.
\<close>

definition findAll_ofGroups :: "string \<Rightarrow> string \<Rightarrow> db \<Rightarrow> transaction list" where
  "findAll_ofGroups g1 g2 rows =
     sort_key id' (filter (\<lambda>r. TransactionGroup r = g1 \<or> TransactionGroup r = g2) rows)"

text \<open>\<open>tr.save()\<close>: the row of the table with this id takes the values of the instance.\<close>

definition save :: "transaction \<Rightarrow> db \<Rightarrow> db" where
  "save tr rows = map (\<lambda>r. if id' r = id' tr then tr else r) rows"

text \<open>
  \<open>buildRefund\<close>, the closure of \<open>createRefundTransaction\<close>, with what it closes over as
  arguments: \<open>netAmount\<close> (of \<open>lib/transactions\<close>), \<open>refundedPaymentProcessorFee\<close>, \<open>data\<close>
  and \<open>user\<close>. \<open>pick\<close> copies the listed columns; of \<open>data\<close> it copies \<open>isFeesOnTop\<close>
  alone, when the row has it.
\<close>

definition pick_isFeesOnTop :: "jsobject option \<Rightarrow> jsobject" where
  "pick_isFeesOnTop d =
     (case d of
        None \<Rightarrow> []
      | Some kvs \<Rightarrow> (case map_of kvs ''isFeesOnTop'' of None \<Rightarrow> [] | Some v \<Rightarrow> [(''isFeesOnTop'', v)]))"

definition buildRefund ::
  "(transaction \<Rightarrow> int) \<Rightarrow> int \<Rightarrow> jsobject option \<Rightarrow> user option \<Rightarrow> transaction \<Rightarrow> txfields" where
  "buildRefund netAmount refundedPaymentProcessorFee data_arg user_arg t =
     (let hostFee = - hostFeeInHostCurrency t;
          platformFee = - platformFeeInHostCurrency t;
          paymentProcessorFee = - paymentProcessorFeeInHostCurrency t;
          hostFee' = (if refundedPaymentProcessorFee = 0 then hostFee + paymentProcessorFee else hostFee);
          paymentProcessorFee' = (if refundedPaymentProcessorFee = 0 then 0 else paymentProcessorFee)
      in \<lparr> currency = currency t,
           FromCollectiveId = FromCollectiveId t,
           CollectiveId = CollectiveId t,
           HostCollectiveId = HostCollectiveId t,
           PaymentMethodId = PaymentMethodId t,
           OrderId = OrderId t,
           ExpenseId = ExpenseId t,
           hostCurrencyFxRate = hostCurrencyFxRate t,
           hostCurrency = hostCurrency t,
           hostFeeInHostCurrency = hostFee',
           platformFeeInHostCurrency = platformFee,
           paymentProcessorFeeInHostCurrency = paymentProcessorFee',
           kind = kind t,
           CreatedByUserId =
             (case user_arg of
                None \<Rightarrow> None
              | Some u \<Rightarrow> if user_id u = 0 then None else Some (user_id u)),
           description = ''Refund of '' @ [CHR 0x22] @ description t @ [CHR 0x22],
           data = Some (spread (pick_isFeesOnTop (data t))
                               (case data_arg of None \<Rightarrow> [] | Some d \<Rightarrow> d)),
           amount = - amount t,
           amountInHostCurrency = - amountInHostCurrency t,
           netAmountInCollectiveCurrency = - netAmount t,
           isRefund = True \<rparr>)"

text \<open>
  \<open>associateTransactionRefundId\<close>. The query result is destructured into \<open>tr1 .. tr4\<close>;
  with fewer than four rows a \<open>TypeError\<close> is thrown before the first \<open>save\<close> (\<open>tr4.id\<close>,
  or the assignment to \<open>tr1.data\<close>, reads \<open>undefined\<close>). The result is
  \<open>find([tr1, tr2, tr3, tr4], { id: transaction.id })\<close>, \<open>undefined\<close> when none has the id.
\<close>

definition associateTransactionRefundId ::
  "transaction \<Rightarrow> transaction \<Rightarrow> jsobject option \<Rightarrow> (transaction option, db) io" where
  "associateTransactionRefundId transaction refund data_arg rows =
     (case findAll_ofGroups (TransactionGroup transaction) (TransactionGroup refund) rows of
        tr1 # tr2 # tr3 # tr4 # rest \<Rightarrow>
          (let tr1 = (case data_arg of None \<Rightarrow> tr1 | Some d \<Rightarrow> tr1\<lparr>data := Some d\<rparr>);
               tr2 = (case data_arg of None \<Rightarrow> tr2 | Some d \<Rightarrow> tr2\<lparr>data := Some d\<rparr>);
               tr1 = tr1\<lparr>RefundTransactionId := Some (id' tr4)\<rparr>;
               rows = save tr1 rows;
               tr2 = tr2\<lparr>RefundTransactionId := Some (id' tr3)\<rparr>;
               rows = save tr2 rows;
               tr3 = tr3\<lparr>RefundTransactionId := Some (id' tr2)\<rparr>;
               rows = save tr3 rows;
               tr4 = tr4\<lparr>RefundTransactionId := Some (id' tr1)\<rparr>;
               rows = save tr4 rows
           in (Inr (List.find (\<lambda>r. id' r = id' transaction) [tr1, tr2, tr3, tr4]), rows))
      | _ \<Rightarrow> (Inl TypeError, rows))"

text \<open>
  Modelled from the spec: \<open>netAmount\<close> of \<open>lib/transactions\<close>, which is not among the
  sources. The specification has the refund's \<open>netAmountInCollectiveCurrency\<close> be the exact
  negation of the CREDIT transaction's value, and the refund is given \<open>-netAmount(t)\<close>:
  \<open>netAmount(t)\<close> is the net amount of \<open>t\<close> in the currency of the collective.
\<close>

definition netAmount :: "transaction \<Rightarrow> int" where
  "netAmount t = netAmountInCollectiveCurrency t"

text \<open>
  What \<open>createRefundTransaction\<close> calls in the transaction model:
  \<open>models.Transaction.createDoubleEntry\<close>, which writes the ledger rows for the object it
  is given and returns one of them, and \<open>transaction.getPlatformTipTransaction()\<close>.
\<close>

record deps =
  createDoubleEntry :: "txfields \<Rightarrow> (transaction, db) io"
  getPlatformTipTransaction :: "transaction \<Rightarrow> (transaction option, db) io"

text \<open>
  \<open>createRefundTransaction\<close>, first half (up to \<open>const creditTransactionRefund\<close>): the
  CREDIT transaction is the one passed when its type is \<open>CREDIT\<close>, else the other row of
  its group; the two checks; the refund built from it.
\<close>

definition creditTransactionOf :: "transaction \<Rightarrow> db \<Rightarrow> transaction option" where
  "creditTransactionOf transaction rows =
     (if type' transaction = ''CREDIT'' then Some transaction
      else findOne_otherOfGroup transaction rows)"

definition creditTransactionRefund ::
  "(transaction \<Rightarrow> int) \<Rightarrow> transaction \<Rightarrow> int \<Rightarrow> jsobject option \<Rightarrow> user option
     \<Rightarrow> (txfields, db) io" where
  "creditTransactionRefund netAmount_fn transaction refundedPaymentProcessorFee data_arg user_arg rows =
     (case creditTransactionOf transaction rows of
        None \<Rightarrow> reject (Error ''Cannot find any CREDIT transaction to refund'') rows
      | Some credit \<Rightarrow>
          if truthy_id (RefundTransactionId credit)
          then reject (Error ''This transaction has already been refunded'') rows
          else resolve (buildRefund netAmount_fn refundedPaymentProcessorFee data_arg user_arg credit)
                 rows)"

text \<open>
  Second half. When the transaction passed has \<open>data.isFeesOnTop\<close>, the platform tip is
  refunded first (\<open>buildRefund\<close> throws a \<open>TypeError\<close> on \<open>t.description\<close> when there is
  no tip transaction); then the double entry of the refund is created and linked.
\<close>

definition refundPlatformTip ::
  "deps \<Rightarrow> transaction \<Rightarrow> int \<Rightarrow> jsobject option \<Rightarrow> user option \<Rightarrow> (unit, db) io" where
  "refundPlatformTip env transaction refundedPaymentProcessorFee data_arg user_arg =
     (if truthy (optProp (data transaction) ''isFeesOnTop'')
      then await (getPlatformTipTransaction env transaction) (\<lambda>feeOnTopTransaction.
             case feeOnTopTransaction of
               None \<Rightarrow> reject TypeError
             | Some tip \<Rightarrow>
                 await (createDoubleEntry env
                          (buildRefund netAmount refundedPaymentProcessorFee
                             data_arg user_arg tip)) (\<lambda>feeOnTopRefundTransaction.
                 await (associateTransactionRefundId tip feeOnTopRefundTransaction data_arg)
                   (\<lambda>linked. resolve ())))
      else resolve ())"

definition createRefundTransaction ::
  "deps \<Rightarrow> transaction \<Rightarrow> int \<Rightarrow> jsobject option \<Rightarrow> user option
     \<Rightarrow> (transaction option, db) io" where
  "createRefundTransaction env transaction refundedPaymentProcessorFee data_arg user_arg =
     await (creditTransactionRefund netAmount transaction refundedPaymentProcessorFee
              data_arg user_arg) (\<lambda>refund.
     await (refundPlatformTip env transaction refundedPaymentProcessorFee data_arg user_arg)
       (\<lambda>tip_done.
     await (createDoubleEntry env refund) (\<lambda>refundTransaction.
     associateTransactionRefundId transaction refundTransaction data_arg)))"

text \<open>
  The row of the table after \<open>associateTransactionRefundId\<close> has saved \<open>tr1 .. tr4\<close>: a
  row with the id of one of the four has the new \<open>RefundTransactionId\<close> (and, for the first
  two, the \<open>data\<close> passed), every other row is as it was. Used to state what the function
  writes.
\<close>

definition linkedRow ::
  "transaction \<Rightarrow> transaction \<Rightarrow> transaction \<Rightarrow> transaction \<Rightarrow> jsobject option
     \<Rightarrow> transaction \<Rightarrow> transaction" where
  "linkedRow tr1 tr2 tr3 tr4 data_arg r =
     (if id' r = id' tr1
        then r\<lparr>data := (case data_arg of None \<Rightarrow> data r | Some d \<Rightarrow> Some d),
               RefundTransactionId := Some (id' tr4)\<rparr>
      else if id' r = id' tr2
        then r\<lparr>data := (case data_arg of None \<Rightarrow> data r | Some d \<Rightarrow> Some d),
               RefundTransactionId := Some (id' tr3)\<rparr>
      else if id' r = id' tr3 then r\<lparr>RefundTransactionId := Some (id' tr2)\<rparr>
      else if id' r = id' tr4 then r\<lparr>RefundTransactionId := Some (id' tr1)\<rparr>
      else r)"

section \<open>Orders\<close>

text \<open>
  The fields of an order, its payment method and its collective that \<open>lib/payments\<close>
  reads. \<open>service\<close> and \<open>type\<close> of a payment method, \<open>interval\<close>, \<open>totalAmount\<close> and
  \<open>processedAt\<close> are nullable columns; an order may have no payment method. A host is a
  collective. The fee percentages are JSON values: only a number counts as set.
\<close>

record paymentMethod =
  pm_service :: "string option"
  pm_type :: "string option"
  pm_paid :: bool
  pm_saved :: bool

record collective =
  isHostAccount :: bool
  collective_data :: "jsobject option"
  platformFeePercent :: jsvalue
  hostFeePercent :: jsvalue

record order =
  order_id :: nat
  order_FromCollectiveId :: nat
  order_currency :: string
  order_status :: string
  order_data :: "jsobject option"
  totalAmount :: "int option"
  interval :: "string option"
  processedAt :: "nat option"
  SubscriptionId :: "nat option"
  paymentMethod :: "paymentMethod option"
  collective :: collective

text \<open>\<open>config.fees.default\<close>.\<close>

record fees_default =
  platformPercent :: jsvalue
  hostPercent :: jsvalue

subsection \<open>Fee percentages\<close>

text \<open>
  \<open>host = host || (await order.collective.getHostCollective())\<close>; the method of the
  collective model is a parameter, it returns the host or \<open>null\<close>.
\<close>

definition resolveHost ::
  "(collective \<Rightarrow> collective option) \<Rightarrow> order \<Rightarrow> collective option \<Rightarrow> collective option" where
  "resolveHost getHostCollective order host_arg =
     (case host_arg of Some h \<Rightarrow> Some h | None \<Rightarrow> getHostCollective (collective order))"

text \<open>
  \<open>getPlatformFeePercent\<close>: the candidates are pushed in the order of the source and the
  first number is returned (\<open>undefined\<close> when there is none). Reading \<open>service\<close> of a
  missing payment method, or \<open>data\<close> of a missing host, throws a \<open>TypeError\<close>.
\<close>

definition getPlatformFeePercent ::
  "fees_default \<Rightarrow> (collective \<Rightarrow> collective option) \<Rightarrow> order \<Rightarrow> collective option
     \<Rightarrow> error + jsvalue" where
  "getPlatformFeePercent config_fees getHostCollective order host_arg =
     (let possibleValues = [optProp (order_data order) ''platformFeePercent''] in
      case paymentMethod order of
        None \<Rightarrow> Inl TypeError
      | Some pm \<Rightarrow>
          (case (if pm_service pm = Some ''opencollective'' \<and> pm_type pm = Some ''manual''
                 then (case resolveHost getHostCollective order host_arg of
                         None \<Rightarrow> Inl TypeError
                       | Some host \<Rightarrow>
                           Inr (possibleValues @
                                [optProp (collective_data (collective order))
                                   ''bankTransfersPlatformFeePercent'',
                                 optProp (collective_data host) ''bankTransfersPlatformFeePercent'',
                                 Number 0]))
                 else Inr possibleValues) of
             Inl e \<Rightarrow> Inl e
           | Inr possibleValues \<Rightarrow>
               (let possibleValues =
                      (if pm_service pm = Some ''opencollective''
                          \<and> (pm_type pm = Some ''collective'' \<or> pm_type pm = Some ''host'')
                       then possibleValues @ [Number 0] else possibleValues);
                    possibleValues = possibleValues @ [platformFeePercent (collective order)];
                    possibleValues = possibleValues @ [platformPercent config_fees]
                in Inr (array_find isNumber possibleValues))))"

text \<open>
  \<open>getHostFeePercent\<close>: the host is resolved first, then an order to a host account returns
  0 at once; otherwise the candidates are pushed as in the source.
\<close>

definition getHostFeePercent ::
  "fees_default \<Rightarrow> (collective \<Rightarrow> collective option) \<Rightarrow> order \<Rightarrow> collective option
     \<Rightarrow> error + jsvalue" where
  "getHostFeePercent config_fees getHostCollective order host_arg =
     (let host = resolveHost getHostCollective order host_arg in
      if isHostAccount (collective order) then Inr (Number 0)
      else
        (let possibleValues = [optProp (order_data order) ''hostFeePercent''] in
         case paymentMethod order of
           None \<Rightarrow> Inl TypeError
         | Some pm \<Rightarrow>
             if (pm_service pm = Some ''opencollective'' \<and> pm_type pm = Some ''manual''
                 \<or> pm_service pm = Some ''stripe'' \<or> pm_service pm = Some ''paypal'')
                \<and> host = None
             then Inl TypeError
             else
               (let host_data = (case host of None \<Rightarrow> None | Some h \<Rightarrow> collective_data h);
                    possibleValues =
                      (if pm_service pm = Some ''opencollective'' \<and> pm_type pm = Some ''manual''
                       then possibleValues @
                            [optProp (collective_data (collective order))
                               ''bankTransfersHostFeePercent'',
                             optProp host_data ''bankTransfersHostFeePercent'']
                       else possibleValues);
                    possibleValues =
                      (if pm_service pm = Some ''opencollective''
                          \<and> (pm_type pm = Some ''collective'' \<or> pm_type pm = Some ''host'')
                       then possibleValues @ [Number 0] else possibleValues);
                    possibleValues =
                      (if pm_service pm = Some ''stripe''
                       then possibleValues @
                            [optProp (collective_data (collective order)) ''creditCardHostFeePercent'',
                             optProp host_data ''creditCardHostFeePercent'']
                       else possibleValues);
                    possibleValues =
                      (if pm_service pm = Some ''paypal''
                       then possibleValues @
                            [optProp (collective_data (collective order)) ''paypalHostFeePercent'',
                             optProp host_data ''paypalHostFeePercent'']
                       else possibleValues);
                    possibleValues = possibleValues @ [hostFeePercent (collective order)];
                    possibleValues = possibleValues @ [hostPercent config_fees]
                in Inr (array_find isNumber possibleValues))))"

text \<open>
  The precedence of the platform fee as the specification words it: the percentage fixed
  on the order's data; for an opencollective/manual payment method the collective's and
  the host's \<open>bankTransfersPlatformFeePercent\<close> and 0; for an opencollective collective or
  host payment method 0; the collective's \<open>platformFeePercent\<close>; the platform default.
\<close>

definition platformFeePrecedence ::
  "fees_default \<Rightarrow> order \<Rightarrow> paymentMethod \<Rightarrow> collective option \<Rightarrow> jsvalue list" where
  "platformFeePrecedence config_fees order pm host =
     [optProp (order_data order) ''platformFeePercent'']
     @ (if pm_service pm = Some ''opencollective'' \<and> pm_type pm = Some ''manual''
        then [optProp (collective_data (collective order)) ''bankTransfersPlatformFeePercent'',
              optProp (case host of None \<Rightarrow> None | Some h \<Rightarrow> collective_data h)
                ''bankTransfersPlatformFeePercent'',
              Number 0]
        else [])
     @ (if pm_service pm = Some ''opencollective''
           \<and> (pm_type pm = Some ''collective'' \<or> pm_type pm = Some ''host'')
        then [Number 0] else [])
     @ [platformFeePercent (collective order), platformPercent config_fees]"

subsection \<open>Executing an order\<close>

text \<open>
  A payment provider of \<open>paymentProviders[service].types[type]\<close>: its \<open>features.waitToCharge\<close>
  and its \<open>processOrder\<close>, which charges the order and returns the transaction created,
  if any. The state of these operations is the order instance, which they may change,
  and the world \<open>'w\<close> outside it (database, payment processors, mail).
\<close>

record 'w provider =
  waitToCharge :: bool
  provider_processOrder :: "jsobject \<Rightarrow> (transaction option, order \<times> 'w) io"

text \<open>
  What \<open>executeOrder\<close> calls outside this file, in the order it calls them:
  \<open>order.populate\<close>, \<open>validatePlanRequest\<close>, the table of payment providers, the clock,
  the write of \<open>order.update\<close>, \<open>findOrAddUserWithRole\<close> on the collective of the order
  (for the collective given) and on the platform collective, \<open>subscribeOrUpgradePlan\<close>,
  \<open>isPrepaidBudgetOrder\<close>, \<open>createPrepaidPaymentMethod\<close>, \<open>paymentMethod.save\<close>, the three
  mails of \<open>sendEmailNotifications\<close>, and \<open>models.Subscription.create\<close> with the set-up of
  the subscription, which returns its id. The mails and \<open>paymentMethod.save\<close> are started
  and not awaited: they change the world and cannot make \<open>executeOrder\<close> throw.
\<close>

record 'w order_deps =
  populate :: "(unit, order \<times> 'w) io"
  validatePlanRequest :: "(unit, order \<times> 'w) io"
  paymentProviders :: "string \<Rightarrow> (string \<Rightarrow> 'w provider option) option"
  currentDate :: "'w \<Rightarrow> nat"
  persistOrder :: "(unit, order \<times> 'w) io"
  findOrAddUserWithRole :: "user \<Rightarrow> nat \<Rightarrow> (unit, order \<times> 'w) io"
  platformFindOrAddUserWithRole :: "user \<Rightarrow> nat \<Rightarrow> (unit, order \<times> 'w) io"
  subscribeOrUpgradePlan :: "(unit, order \<times> 'w) io"
  isPrepaidBudgetOrder :: "order \<Rightarrow> bool"
  createPrepaidPaymentMethod :: "transaction \<Rightarrow> (unit, order \<times> 'w) io"
  paymentMethod_save :: "order \<Rightarrow> 'w \<Rightarrow> 'w"
  sendOrderConfirmedEmail :: "order \<Rightarrow> transaction \<Rightarrow> 'w \<Rightarrow> 'w"
  sendOrderProcessingEmail :: "order \<Rightarrow> 'w \<Rightarrow> 'w"
  sendManualPendingOrderEmail :: "order \<Rightarrow> 'w \<Rightarrow> 'w"
  Subscription_create :: "(nat, order \<times> 'w) io"

text \<open>\<open>a || b\<close> on a nullable string: the empty string is falsy too.\<close>

definition or_default :: "string option \<Rightarrow> string \<Rightarrow> string" where
  "or_default v dflt = (case v of None \<Rightarrow> dflt | Some s \<Rightarrow> if s = [] then dflt else s)"

definition findPaymentMethodProvider ::
  "'w order_deps \<Rightarrow> paymentMethod option \<Rightarrow> error + 'w provider" where
  "findPaymentMethodProvider deps pm =
     (let provider = or_default (case pm of None \<Rightarrow> None | Some m \<Rightarrow> pm_service m) ''opencollective'';
          methodType = or_default (case pm of None \<Rightarrow> None | Some m \<Rightarrow> pm_type m) ''default''
      in case paymentProviders deps provider of
           None \<Rightarrow> Inl (Error (''No payment provider found for '' @ provider))
         | Some types \<Rightarrow>
             (case types methodType of
                None \<Rightarrow> Inl (Error (''No payment provider found for '' @ provider @ '':'' @ methodType))
              | Some paymentMethodProvider \<Rightarrow> Inr paymentMethodProvider))"

definition processOrder ::
  "'w order_deps \<Rightarrow> jsobject \<Rightarrow> (transaction option, order \<times> 'w) io" where
  "processOrder deps options = (\<lambda>(order, w).
     case findPaymentMethodProvider deps (paymentMethod order) of
       Inl e \<Rightarrow> (Inl e, (order, w))
     | Inr paymentMethodProvider \<Rightarrow>
         if waitToCharge paymentMethodProvider
            \<and> \<not> (case paymentMethod order of None \<Rightarrow> False | Some m \<Rightarrow> pm_paid m)
         then (Inr None, (order, w))
         else provider_processOrder paymentMethodProvider options (order, w))"

text \<open>\<open>order.update(values)\<close>: the instance takes the values and is written.\<close>

definition order_update :: "'w order_deps \<Rightarrow> (order \<Rightarrow> 'w \<Rightarrow> order) \<Rightarrow> (unit, order \<times> 'w) io" where
  "order_update deps values = (\<lambda>(order, w). persistOrder deps (values order w, w))"

definition sendEmailNotifications ::
  "'w order_deps \<Rightarrow> order \<Rightarrow> transaction option \<Rightarrow> 'w \<Rightarrow> 'w" where
  "sendEmailNotifications deps order transaction w =
     (case transaction of
        Some t \<Rightarrow> sendOrderConfirmedEmail deps order t w
      | None \<Rightarrow>
          if order_status order = ''PENDING''
          then sendManualPendingOrderEmail deps order (sendOrderProcessingEmail deps order w)
          else w)"

definition createSubscription :: "'w order_deps \<Rightarrow> (unit, order \<times> 'w) io" where
  "createSubscription deps =
     await (Subscription_create deps) (\<lambda>subscription_id.
       order_update deps
         (\<lambda>order w. order\<lparr>order_status := ''ACTIVE'', SubscriptionId := Some subscription_id\<rparr>))"

record payment =
  payment_amount :: "int option"
  payment_interval :: "string option"
  payment_currency :: string

text \<open>
  \<open>validatePayment\<close>: \<open>payment.interval && !includes(['month', 'year'], payment.interval)\<close>
  holds for a non-empty string other than the two; \<open>!payment.amount\<close> holds for a missing
  amount and for 0.
\<close>

definition validatePayment :: "payment \<Rightarrow> error + unit" where
  "validatePayment payment =
     (if (case payment_interval payment of
            None \<Rightarrow> False
          | Some i \<Rightarrow> i \<noteq> [] \<and> i \<notin> set [''month'', ''year''])
      then Inl (Error ''Interval should be null, month or year.'')
      else if (case payment_amount payment of None \<Rightarrow> True | Some a \<Rightarrow> a = 0)
      then Inl (Error ''payment.amount missing'')
      else Inr ())"

text \<open>
  \<open>executeOrder\<close> after the validation (from \<open>await order.populate()\<close> on): the charge by
  \<open>processOrder\<close>; when it returns a transaction, the order is marked \<open>PAID\<close> and the
  backers, the plan and the prepaid payment method are dealt with; then the payment
  method is marked saved if asked for, the mails are started, the emitter of a gift card
  becomes a backer, and an order with an interval that was charged gets its subscription.
\<close>

definition afterCharge :: "'w order_deps \<Rightarrow> user \<Rightarrow> transaction \<Rightarrow> (unit, order \<times> 'w) io" where
  "afterCharge deps user_arg transaction =
     await (order_update deps
              (\<lambda>order w. order\<lparr>order_status := ''PAID'',
                               processedAt := Some (currentDate deps w),
                               order_data :=
                                 Some (filter (\<lambda>(k, v). k \<noteq> ''paymentIntent'')
                                         (case order_data order of None \<Rightarrow> [] | Some d \<Rightarrow> d))\<rparr>))
       (\<lambda>updated.
     await (\<lambda>(order, w).
              findOrAddUserWithRole deps user_arg (order_FromCollectiveId order) (order, w))
       (\<lambda>backer.
     await (\<lambda>(order, w).
              if truthy (optProp (order_data order) ''isFeesOnTop'')
                 \<and> truthy (optProp (order_data order) ''platformFee'')
              then platformFindOrAddUserWithRole deps user_arg (order_FromCollectiveId order)
                     (order, w)
              else (Inr (), (order, w))) (\<lambda>platform_backer.
     await (subscribeOrUpgradePlan deps) (\<lambda>plan.
       (\<lambda>(order, w).
          if isPrepaidBudgetOrder deps order
          then createPrepaidPaymentMethod deps transaction (order, w)
          else (Inr (), (order, w)))))))"

definition processValidOrder ::
  "'w order_deps \<Rightarrow> user \<Rightarrow> jsobject \<Rightarrow> (unit, order \<times> 'w) io" where
  "processValidOrder deps user_arg options =
     await (populate deps) (\<lambda>populated.
     await (validatePlanRequest deps) (\<lambda>plan_ok.
     await (processOrder deps options) (\<lambda>transaction.
     await (case transaction of
              None \<Rightarrow> resolve ()
            | Some t \<Rightarrow> afterCharge deps user_arg t) (\<lambda>charged.
     await (\<lambda>(order, w).
              if truthy (optProp (order_data order) ''savePaymentMethod'')
              then (case paymentMethod order of
                      None \<Rightarrow> (Inl TypeError, (order, w))
                    | Some m \<Rightarrow>
                        (let order' = order\<lparr>paymentMethod := Some (m\<lparr>pm_saved := True\<rparr>)\<rparr>
                         in (Inr (), (order', paymentMethod_save deps order' w))))
              else (Inr (), (order, w))) (\<lambda>saved.
     await (\<lambda>(order, w). (Inr (), (order, sendEmailNotifications deps order transaction w)))
       (\<lambda>mails.
     await (case transaction of
              None \<Rightarrow> resolve ()
            | Some t \<Rightarrow>
                (case UsingGiftCardFromCollectiveId t of
                   None \<Rightarrow> resolve ()
                 | Some emitter \<Rightarrow>
                     if emitter = 0 then resolve ()
                     else findOrAddUserWithRole deps user_arg emitter)) (\<lambda>emitter_backer.
       (\<lambda>(order, w).
          if (case interval order of None \<Rightarrow> False | Some i \<Rightarrow> i \<noteq> []) \<and> transaction \<noteq> None
          then createSubscription deps (order, w)
          else (Inr (), (order, w))))))))))"

text \<open>
  \<open>executeOrder\<close>. \<open>None\<close> for the user or the order stands for a value that is not an
  instance of the model. The result is the outcome, the order instance and the world as
  the call leaves them. (\<open>if (!order)\<close> cannot hold after the \<open>instanceof\<close> test.)
\<close>

definition executeOrder ::
  "'w order_deps \<Rightarrow> user option \<Rightarrow> order option \<Rightarrow> jsobject \<Rightarrow> 'w
     \<Rightarrow> (error + unit) \<times> order option \<times> 'w" where
  "executeOrder deps user_arg order_arg options w =
     (case user_arg of
        None \<Rightarrow> (Inl (Error ''user should be an instance of the User model''), order_arg, w)
      | Some user' \<Rightarrow>
          (case order_arg of
             None \<Rightarrow> (Inl (Error ''order should be an instance of the Order model''), order_arg, w)
           | Some order \<Rightarrow>
               (case processedAt order of
                  Some date \<Rightarrow> (Inl (OrderAlreadyProcessed (order_id order) date), order_arg, w)
                | None \<Rightarrow>
                    (case validatePayment
                            \<lparr> payment_amount = totalAmount order,
                              payment_interval = interval order,
                              payment_currency = order_currency order \<rparr> of
                       Inl e \<Rightarrow> (Inl e, order_arg, w)
                     | Inr valid \<Rightarrow>
                         (case processValidOrder deps user' options (order, w) of
                            (outcome, order', w') \<Rightarrow> (outcome, Some order', w'))))))"

subsection \<open>An example ledger\<close>

text \<open>
  A contribution of 50.00 USD from collective 10 to collective 20 (host fee 5.00, platform
  fee 2.50, processor fee 1.75) as its DEBIT and CREDIT rows, and the two rows of its
  refund, not yet linked. The evaluations below run on it.
\<close>

definition example_credit :: transaction where
  "example_credit =
     \<lparr> currency = ''USD'', FromCollectiveId = Some 10, CollectiveId = Some 20,
       HostCollectiveId = Some 30, PaymentMethodId = Some 40, OrderId = Some 50,
       ExpenseId = None, hostCurrencyFxRate = 1, hostCurrency = ''USD'',
       hostFeeInHostCurrency = - 500, platformFeeInHostCurrency = - 250,
       paymentProcessorFeeInHostCurrency = - 175, kind = Some ''CONTRIBUTION'',
       CreatedByUserId = Some 7, description = ''Donation'', data = None,
       amount = 5000, amountInHostCurrency = 5000, netAmountInCollectiveCurrency = 4075,
       isRefund = False,
       id' = 2, type' = ''CREDIT'', TransactionGroup = ''group-a'',
       RefundTransactionId = None, UsingGiftCardFromCollectiveId = None \<rparr>"

definition example_debit :: transaction where
  "example_debit =
     example_credit \<lparr> FromCollectiveId := Some 20, CollectiveId := Some 10,
                      amount := - 4075, amountInHostCurrency := - 4075,
                      netAmountInCollectiveCurrency := - 5000,
                      id' := 1, type' := ''DEBIT'' \<rparr>"

definition example_refund_debit :: transaction where
  "example_refund_debit =
     example_credit \<lparr> hostFeeInHostCurrency := 500, platformFeeInHostCurrency := 250,
                      paymentProcessorFeeInHostCurrency := 175,
                      description := ''Refund of donation'',
                      amount := - 5000, amountInHostCurrency := - 5000,
                      netAmountInCollectiveCurrency := - 4075, isRefund := True,
                      id' := 3, type' := ''DEBIT'', TransactionGroup := ''group-b'' \<rparr>"

definition example_refund_credit :: transaction where
  "example_refund_credit =
     example_refund_debit \<lparr> FromCollectiveId := Some 20, CollectiveId := Some 10,
                            amount := 4075, amountInHostCurrency := 4075,
                            netAmountInCollectiveCurrency := 5000,
                            id' := 4, type' := ''CREDIT'' \<rparr>"

definition example_ledger :: db where
  "example_ledger = [example_debit, example_credit, example_refund_debit, example_refund_credit]"

text \<open>
  An environment for the evaluations: \<open>createDoubleEntry\<close> appends a DEBIT and a CREDIT
  row in a new group (in one currency) and returns the first, and there is no platform
  tip. It stands for no code of the repository.
\<close>

definition example_createDoubleEntry :: "txfields \<Rightarrow> (transaction, db) io" where
  "example_createDoubleEntry entry rows =
     (let n = length rows;
          first = txfields.extend entry
                    \<lparr> id' = n + 1, type' = ''DEBIT'', TransactionGroup = ''group-b'',
                      RefundTransactionId = None, UsingGiftCardFromCollectiveId = None \<rparr>;
          opposite = first \<lparr> FromCollectiveId := CollectiveId entry,
                             CollectiveId := FromCollectiveId entry,
                             amount := - netAmountInCollectiveCurrency entry,
                             amountInHostCurrency := - netAmountInCollectiveCurrency entry,
                             netAmountInCollectiveCurrency := - amount entry,
                             id' := n + 2, type' := ''CREDIT'' \<rparr>
      in (Inr first, rows @ [first, opposite]))"

definition example_env :: deps where
  "example_env =
     \<lparr> createDoubleEntry = example_createDoubleEntry,
       getPlatformTipTransaction = (\<lambda>t. resolve None) \<rparr>"

definition example_other :: transaction where
  "example_other = example_credit \<lparr> id' := 9, TransactionGroup := ''group-c'' \<rparr>"

subsection \<open>An example order\<close>

text \<open>
  A one-time contribution of 50.00 USD by bank transfer (opencollective/manual) to a
  collective whose host takes 5 percent of bank transfers for the platform, and an
  environment in which every call succeeds: the world is the number of charges made, the
  one provider charges at once and returns the example CREDIT transaction, the clock
  reads 1000.
\<close>

definition example_host :: collective where
  "example_host =
     \<lparr> isHostAccount = True,
       collective_data = Some [(''bankTransfersPlatformFeePercent'', Number 5)],
       platformFeePercent = Null, hostFeePercent = Number 10 \<rparr>"

definition example_collective :: collective where
  "example_collective =
     \<lparr> isHostAccount = False, collective_data = None,
       platformFeePercent = Number 3, hostFeePercent = Number 10 \<rparr>"

definition example_order :: order where
  "example_order =
     \<lparr> order_id = 50, order_FromCollectiveId = 10, order_currency = ''USD'',
       order_status = ''NEW'', order_data = Some [(''platformFeePercent'', String ''4'')],
       totalAmount = Some 5000, interval = None, processedAt = None, SubscriptionId = None,
       paymentMethod = Some \<lparr> pm_service = Some ''opencollective'', pm_type = Some ''manual'',
                              pm_paid = True, pm_saved = False \<rparr>,
       collective = example_collective \<rparr>"

definition example_fees_default :: fees_default where
  "example_fees_default = \<lparr> platformPercent = Number 5, hostPercent = Number 10 \<rparr>"

definition example_provider :: "nat provider" where
  "example_provider =
     \<lparr> waitToCharge = False,
       provider_processOrder = (\<lambda>options (order, charges). (Inr (Some example_credit), (order, charges + 1))) \<rparr>"

definition example_order_deps :: "nat order_deps" where
  "example_order_deps =
     \<lparr> populate = resolve (),
       validatePlanRequest = resolve (),
       paymentProviders = (\<lambda>service. Some (\<lambda>type. Some example_provider)),
       currentDate = (\<lambda>w. 1000),
       persistOrder = resolve (),
       findOrAddUserWithRole = (\<lambda>u c. resolve ()),
       platformFindOrAddUserWithRole = (\<lambda>u c. resolve ()),
       subscribeOrUpgradePlan = resolve (),
       isPrepaidBudgetOrder = (\<lambda>order. False),
       createPrepaidPaymentMethod = (\<lambda>t. resolve ()),
       paymentMethod_save = (\<lambda>order w. w),
       sendOrderConfirmedEmail = (\<lambda>order t w. w),
       sendOrderProcessingEmail = (\<lambda>order w. w),
       sendManualPendingOrderEmail = (\<lambda>order w. w),
       Subscription_create = resolve 1 \<rparr>"

definition example_card_order :: order where
  "example_card_order =
     example_order \<lparr> paymentMethod := Some \<lparr> pm_service = Some ''stripe'',
                                             pm_type = Some ''creditcard'',
                                             pm_paid = False, pm_saved = False \<rparr> \<rparr>"

section \<open>Properties\<close>

lemmas example_defs =
  example_ledger_def example_credit_def example_debit_def example_refund_debit_def
  example_refund_credit_def example_other_def example_env_def
  example_createDoubleEntry_def

subsection \<open>Refunds\<close>

lemma insort_key_map_same:
  "(\<And>x. k (f x) = k x) \<Longrightarrow> insort_key k (f x) (map f ys) = map f (insort_key k x ys)"
  by (induction ys) simp_all

lemma sort_key_map_same:
  "(\<And>x. k (f x) = k x) \<Longrightarrow> sort_key k (map f xs) = map f (sort_key k xs)"
  by (induction xs) (simp_all add: insort_key_map_same)

lemma filter_map_same:
  "(\<And>x. P (f x) = P x) \<Longrightarrow> filter P (map f xs) = map f (filter P xs)"
  by (induction xs) simp_all

lemma findAll_ofGroups_map:
  assumes "\<And>r. id' (f r) = id' r" and "\<And>r. TransactionGroup (f r) = TransactionGroup r"
  shows "findAll_ofGroups g1 g2 (map f rows) = map f (findAll_ofGroups g1 g2 rows)"
  unfolding findAll_ofGroups_def
  using assms by (simp add: sort_key_map_same filter_map_same)

lemma findAll_ofGroups_distinct:
  "distinct (map id' rows) \<Longrightarrow> distinct (map id' (findAll_ofGroups g1 g2 rows))"
  unfolding findAll_ofGroups_def
  by (auto simp: distinct_map intro: inj_on_subset)

lemma findAll_ofGroups_subset: "set (findAll_ofGroups g1 g2 rows) \<subseteq> set rows"
  unfolding findAll_ofGroups_def by auto

lemma linkedRow_id: "id' (linkedRow tr1 tr2 tr3 tr4 d r) = id' r"
  by (simp add: linkedRow_def)

lemma linkedRow_group: "TransactionGroup (linkedRow tr1 tr2 tr3 tr4 d r) = TransactionGroup r"
  by (simp add: linkedRow_def)

lemma associate_rows:
  assumes d: "distinct (map id' rows)"
    and q: "findAll_ofGroups (TransactionGroup transaction) (TransactionGroup refund) rows
            = tr1 # tr2 # tr3 # tr4 # rest"
  shows "associateTransactionRefundId transaction refund d rows
         = (Inr (List.find (\<lambda>r. id' r = id' transaction)
                   (map (linkedRow tr1 tr2 tr3 tr4 d) [tr1, tr2, tr3, tr4])),
            map (linkedRow tr1 tr2 tr3 tr4 d) rows)"
proof -
  have dq: "distinct (map id' (tr1 # tr2 # tr3 # tr4 # rest))"
    using findAll_ofGroups_distinct [OF d] q by metis
  have mem: "tr1 \<in> set rows" "tr2 \<in> set rows" "tr3 \<in> set rows" "tr4 \<in> set rows"
    using findAll_ofGroups_subset [of "TransactionGroup transaction" "TransactionGroup refund" rows] q
    by auto
  have inj: "inj_on id' (set rows)" using d by (simp add: distinct_map)
  have eqs: "\<And>r. r \<in> set rows \<Longrightarrow> (id' r = id' tr1) = (r = tr1)"
     "\<And>r. r \<in> set rows \<Longrightarrow> (id' r = id' tr2) = (r = tr2)"
     "\<And>r. r \<in> set rows \<Longrightarrow> (id' r = id' tr3) = (r = tr3)"
     "\<And>r. r \<in> set rows \<Longrightarrow> (id' r = id' tr4) = (r = tr4)"
    using inj mem by (auto dest: inj_onD)
  have ne: "id' tr1 \<noteq> id' tr2" "id' tr1 \<noteq> id' tr3" "id' tr1 \<noteq> id' tr4"
           "id' tr2 \<noteq> id' tr3" "id' tr2 \<noteq> id' tr4" "id' tr3 \<noteq> id' tr4"
    using dq by auto
  show ?thesis
    unfolding associateTransactionRefundId_def q
    using ne eqs
    by (cases d) (auto simp: Let_def save_def linkedRow_def)
qed

lemma associate_too_few:
  "length (findAll_ofGroups (TransactionGroup transaction) (TransactionGroup refund) rows) < 4
   \<Longrightarrow> associateTransactionRefundId transaction refund d rows = (Inl TypeError, rows)"
  unfolding associateTransactionRefundId_def
  by (auto split: list.splits)

text \<open>
  C5: when the ids of the table are distinct, the two groups have the four rows
  \<open>tr1 .. tr4\<close> (by id) and the transaction passed has the id of one of them, then after
  \<open>associateTransactionRefundId\<close> the rows of the two groups are four rows with the same
  ids, linked \<open>tr1 \<leftrightarrow> tr4\<close> and \<open>tr2 \<leftrightarrow> tr3\<close> through \<open>RefundTransactionId\<close>, and the function
  returns the updated row that has the id of the transaction passed.
\<close>

theorem associateTransactionRefundId_links:
  assumes d: "distinct (map id' rows)"
    and q: "findAll_ofGroups (TransactionGroup transaction) (TransactionGroup refund) rows
            = [tr1, tr2, tr3, tr4]"
    and t: "id' transaction \<in> {id' tr1, id' tr2, id' tr3, id' tr4}"
  shows "\<exists>ret rows' t1 t2 t3 t4.
           associateTransactionRefundId transaction refund d_arg rows = (Inr (Some ret), rows')
         \<and> findAll_ofGroups (TransactionGroup transaction) (TransactionGroup refund) rows'
             = [t1, t2, t3, t4]
         \<and> id' t1 = id' tr1 \<and> id' t2 = id' tr2 \<and> id' t3 = id' tr3 \<and> id' t4 = id' tr4
         \<and> RefundTransactionId t1 = Some (id' t4) \<and> RefundTransactionId t4 = Some (id' t1)
         \<and> RefundTransactionId t2 = Some (id' t3) \<and> RefundTransactionId t3 = Some (id' t2)
         \<and> ret \<in> {t1, t2, t3, t4} \<and> id' ret = id' transaction"
proof -
  let ?f = "linkedRow tr1 tr2 tr3 tr4 d_arg"
  have dq: "distinct (map id' [tr1, tr2, tr3, tr4])"
    using findAll_ofGroups_distinct [OF d] q by metis
  then have ne: "id' tr1 \<noteq> id' tr2" "id' tr1 \<noteq> id' tr3" "id' tr1 \<noteq> id' tr4"
           "id' tr2 \<noteq> id' tr3" "id' tr2 \<noteq> id' tr4" "id' tr3 \<noteq> id' tr4"
    by auto
  have run: "associateTransactionRefundId transaction refund d_arg rows
         = (Inr (List.find (\<lambda>r. id' r = id' transaction) (map ?f [tr1, tr2, tr3, tr4])),
            map ?f rows)"
    by (rule associate_rows [OF d q])
  have after: "findAll_ofGroups (TransactionGroup transaction) (TransactionGroup refund) (map ?f rows)
         = [?f tr1, ?f tr2, ?f tr3, ?f tr4]"
    by (simp add: findAll_ofGroups_map linkedRow_id linkedRow_group q)
  have links: "RefundTransactionId (?f tr1) = Some (id' (?f tr4))"
      "RefundTransactionId (?f tr4) = Some (id' (?f tr1))"
      "RefundTransactionId (?f tr2) = Some (id' (?f tr3))"
      "RefundTransactionId (?f tr3) = Some (id' (?f tr2))"
    using ne by (simp_all add: linkedRow_def)
  have "List.find (\<lambda>r. id' r = id' transaction) (map ?f [tr1, tr2, tr3, tr4]) \<noteq> None"
    using t by (auto simp: find_None_iff linkedRow_id)
  then obtain ret where
    ret: "List.find (\<lambda>r. id' r = id' transaction) (map ?f [tr1, tr2, tr3, tr4]) = Some ret"
    by auto
  have ret_in: "ret \<in> {?f tr1, ?f tr2, ?f tr3, ?f tr4}" and ret_id: "id' ret = id' transaction"
    using ret by (auto split: if_splits)
  show ?thesis
    using run after links ret ret_in ret_id by (auto simp: linkedRow_id)
qed

theorem associateTransactionRefundId_links_witness:
  "distinct (map id' example_ledger)
   \<and> findAll_ofGroups (TransactionGroup example_credit) (TransactionGroup example_refund_debit)
        example_ledger
      = [example_debit, example_credit, example_refund_debit, example_refund_credit]
   \<and> (\<exists>ret rows' t1 t2 t3 t4.
        associateTransactionRefundId example_credit example_refund_debit None example_ledger
          = (Inr (Some ret), rows')
      \<and> findAll_ofGroups (TransactionGroup example_credit) (TransactionGroup example_refund_debit) rows'
          = [t1, t2, t3, t4]
      \<and> id' t1 = 1 \<and> id' t2 = 2 \<and> id' t3 = 3 \<and> id' t4 = 4
      \<and> RefundTransactionId t1 = Some 4 \<and> RefundTransactionId t4 = Some 1
      \<and> RefundTransactionId t2 = Some 3 \<and> RefundTransactionId t3 = Some 2
      \<and> id' ret = 2)"
proof -
  have d: "distinct (map id' example_ledger)"
    by (simp add: example_defs)
  have q: "findAll_ofGroups (TransactionGroup example_credit) (TransactionGroup example_refund_debit)
              example_ledger
            = [example_debit, example_credit, example_refund_debit, example_refund_credit]"
    by (simp add: findAll_ofGroups_def example_defs)
  have t: "id' example_credit \<in> {id' example_debit, id' example_credit, id' example_refund_debit,
                                  id' example_refund_credit}"
    by simp
  have ids: "id' example_debit = 1" "id' example_credit = 2" "id' example_refund_debit = 3"
      "id' example_refund_credit = 4"
    by (simp_all add: example_defs)
  show ?thesis
    using d q associateTransactionRefundId_links [OF d q t, of None] unfolding ids
    by (simp only: simp_thms) metis
qed







text \<open>
  C3: \<open>createRefundTransaction\<close> throws \<open>This transaction has already been refunded\<close> when
  the CREDIT transaction carries a \<open>RefundTransactionId\<close> (the id of a row, above 0), and
  \<open>Cannot find any CREDIT transaction to refund\<close> when the transaction passed is not a
  CREDIT and its group has no other row. In both cases the table is left as it was,
  whatever \<open>createDoubleEntry\<close> and the other functions called would do: no row is created
  and none is changed.
\<close>

theorem createRefundTransaction_rejects:
  "(creditTransactionOf transaction rows = Some c \<and> RefundTransactionId c = Some n \<and> 0 < n \<longrightarrow>
      createRefundTransaction env transaction rf d u rows
        = (Inl (Error ''This transaction has already been refunded''), rows))
   \<and> (type' transaction \<noteq> ''CREDIT''
      \<and> (\<forall>r \<in> set rows. TransactionGroup r = TransactionGroup transaction
                          \<longrightarrow> id' r = id' transaction) \<longrightarrow>
      createRefundTransaction env transaction rf d u rows
        = (Inl (Error ''Cannot find any CREDIT transaction to refund''), rows))"
proof (intro conjI impI)
  assume "creditTransactionOf transaction rows = Some c \<and> RefundTransactionId c = Some n \<and> 0 < n"
  then show "createRefundTransaction env transaction rf d u rows
        = (Inl (Error ''This transaction has already been refunded''), rows)"
    by (simp add: createRefundTransaction_def creditTransactionRefund_def await_def reject_def
          truthy_id_def)
next
  assume a: "type' transaction \<noteq> ''CREDIT''
      \<and> (\<forall>r \<in> set rows. TransactionGroup r = TransactionGroup transaction
                          \<longrightarrow> id' r = id' transaction)"
  then have "findOne_otherOfGroup transaction rows = None"
    by (auto simp: findOne_otherOfGroup_def find_None_iff)
  with a show "createRefundTransaction env transaction rf d u rows
        = (Inl (Error ''Cannot find any CREDIT transaction to refund''), rows)"
    by (simp add: createRefundTransaction_def creditTransactionRefund_def creditTransactionOf_def
          await_def reject_def)
qed

theorem createRefundTransaction_rejects_witness:
  "createRefundTransaction example_env (example_credit\<lparr>RefundTransactionId := Some 3\<rparr>) 175 None None
      example_ledger
     = (Inl (Error ''This transaction has already been refunded''), example_ledger)
   \<and> createRefundTransaction example_env example_debit 175 None None [example_debit]
     = (Inl (Error ''Cannot find any CREDIT transaction to refund''), [example_debit])"
proof -
  have a: "creditTransactionOf (example_credit\<lparr>RefundTransactionId := Some 3\<rparr>) example_ledger
             = Some (example_credit\<lparr>RefundTransactionId := Some 3\<rparr>)
           \<and> RefundTransactionId (example_credit\<lparr>RefundTransactionId := Some 3\<rparr>) = Some 3
           \<and> (0::nat) < 3"
    by (simp add: creditTransactionOf_def example_defs)
  have b: "type' example_debit \<noteq> ''CREDIT''
           \<and> (\<forall>r \<in> set [example_debit]. TransactionGroup r = TransactionGroup example_debit
                  \<longrightarrow> id' r = id' example_debit)"
    by (simp add: example_defs)
  show ?thesis
    using a b
      createRefundTransaction_rejects [of "example_credit\<lparr>RefundTransactionId := Some 3\<rparr>" example_ledger
             "example_credit\<lparr>RefundTransactionId := Some 3\<rparr>" 3 example_env 175 None None]
      createRefundTransaction_rejects [of example_debit "[example_debit]" example_credit 3 example_env 175 None None]
    by blast
qed

text \<open>
  C4 (amended): \<open>associateTransactionRefundId\<close> is one operation that saves four records.
  With the ids of the table distinct and at least four rows in the two groups, the table
  it leaves is the old one with the first four rows by id replaced by their linked
  versions (\<open>linkedRow\<close>); the table keeps its length and every row with another id is
  unchanged. With fewer than four rows it throws and writes nothing.
\<close>

theorem associateTransactionRefundId_saves_four_rows:
  assumes d: "distinct (map id' rows)"
  shows "(findAll_ofGroups (TransactionGroup transaction) (TransactionGroup refund) rows
            = tr1 # tr2 # tr3 # tr4 # rest \<longrightarrow>
          snd (associateTransactionRefundId transaction refund d_arg rows)
            = map (linkedRow tr1 tr2 tr3 tr4 d_arg) rows
          \<and> length (snd (associateTransactionRefundId transaction refund d_arg rows)) = length rows
          \<and> (\<forall>i < length rows. id' (rows ! i) \<notin> {id' tr1, id' tr2, id' tr3, id' tr4} \<longrightarrow>
                snd (associateTransactionRefundId transaction refund d_arg rows) ! i = rows ! i))
       \<and> (length (findAll_ofGroups (TransactionGroup transaction) (TransactionGroup refund) rows) < 4
            \<longrightarrow> associateTransactionRefundId transaction refund d_arg rows = (Inl TypeError, rows))"
proof (intro conjI impI)
  assume q: "findAll_ofGroups (TransactionGroup transaction) (TransactionGroup refund) rows
            = tr1 # tr2 # tr3 # tr4 # rest"
  show rows': "snd (associateTransactionRefundId transaction refund d_arg rows)
            = map (linkedRow tr1 tr2 tr3 tr4 d_arg) rows"
    by (simp add: associate_rows [OF d q])
  show "length (snd (associateTransactionRefundId transaction refund d_arg rows)) = length rows"
    by (simp add: rows')
  show "\<forall>i < length rows. id' (rows ! i) \<notin> {id' tr1, id' tr2, id' tr3, id' tr4} \<longrightarrow>
                snd (associateTransactionRefundId transaction refund d_arg rows) ! i = rows ! i"
    by (simp add: rows' linkedRow_def)
next
  assume "length (findAll_ofGroups (TransactionGroup transaction) (TransactionGroup refund) rows) < 4"
  then show "associateTransactionRefundId transaction refund d_arg rows = (Inl TypeError, rows)"
    by (rule associate_too_few)
qed

theorem associateTransactionRefundId_saves_four_rows_witness:
  "distinct (map id' (example_other # example_ledger))
   \<and> snd (associateTransactionRefundId example_credit example_refund_debit None
            (example_other # example_ledger)) ! 0 = example_other
   \<and> length (snd (associateTransactionRefundId example_credit example_refund_debit None
            (example_other # example_ledger))) = 5
   \<and> associateTransactionRefundId example_credit example_credit None [example_debit, example_credit]
       = (Inl TypeError, [example_debit, example_credit])"
proof -
  have d1: "distinct (map id' (example_other # example_ledger))"
    by (simp add: example_defs)
  have q1: "findAll_ofGroups (TransactionGroup example_credit) (TransactionGroup example_refund_debit)
              (example_other # example_ledger)
            = example_debit # example_credit # example_refund_debit # example_refund_credit # []"
    by (simp add: findAll_ofGroups_def example_defs)
  have n1: "id' ((example_other # example_ledger) ! 0)
              \<notin> {id' example_debit, id' example_credit, id' example_refund_debit,
                  id' example_refund_credit}"
    by (simp add: example_defs)
  have d2: "distinct (map id' [example_debit, example_credit])"
    by (simp add: example_defs)
  have q2: "length (findAll_ofGroups (TransactionGroup example_credit) (TransactionGroup example_credit)
              [example_debit, example_credit]) < 4"
    by (simp add: findAll_ofGroups_def example_defs)
  have l: "(0::nat) < length (example_other # example_ledger)" by simp
  note first = associateTransactionRefundId_saves_four_rows [OF d1, of example_credit example_refund_debit example_debit example_credit
            example_refund_debit example_refund_credit "[]" None]
  have len: "length (snd (associateTransactionRefundId example_credit example_refund_debit None
            (example_other # example_ledger))) = length (example_other # example_ledger)"
    using first q1 by blast
  have "snd (associateTransactionRefundId example_credit example_refund_debit None
            (example_other # example_ledger)) ! 0 = (example_other # example_ledger) ! 0"
    using first q1 l n1 by blast
  then have kept: "snd (associateTransactionRefundId example_credit example_refund_debit None
            (example_other # example_ledger)) ! 0 = example_other"
    by simp
  have few: "associateTransactionRefundId example_credit example_credit None
               [example_debit, example_credit] = (Inl TypeError, [example_debit, example_credit])"
    using q2
      associateTransactionRefundId_saves_four_rows [OF d2, of example_credit example_credit example_debit example_credit
            example_refund_debit example_refund_credit "[]" None]
    by blast
  show ?thesis
    using d1 kept len few by (simp add: example_ledger_def)
qed

text \<open>
  As stated, that no operation writes more than one record, C4 fails: on the example
  ledger \<open>associateTransactionRefundId\<close> changes four rows.
\<close>

theorem single_record_counterexample:
  "length (filter (\<lambda>(before, after). before \<noteq> after)
     (zip example_ledger
        (snd (associateTransactionRefundId example_credit example_refund_debit None example_ledger)))) = 4
   \<and> fst (associateTransactionRefundId example_credit example_refund_debit None example_ledger)
     = Inr (Some (example_credit\<lparr>RefundTransactionId := Some 3\<rparr>))"
  by (simp add: associateTransactionRefundId_def findAll_ofGroups_def save_def Let_def example_defs)

text \<open>
  The whole of \<open>createRefundTransaction\<close> on the example: the contribution is refunded
  with the processor fee given back, two rows are created and the four rows are linked.
\<close>

lemma example_createRefundTransaction_run:
  "createRefundTransaction example_env example_credit 175 None (Some \<lparr>user_id = 7\<rparr>)
     [example_debit, example_credit]
   = (Inr (Some (example_credit\<lparr>RefundTransactionId := Some 3\<rparr>)),
      [example_debit\<lparr>RefundTransactionId := Some 4\<rparr>,
       example_credit\<lparr>RefundTransactionId := Some 3\<rparr>,
       example_refund_debit\<lparr>RefundTransactionId := Some 2, data := Some [],
          description := ''Refund of '' @ [CHR 0x22] @ ''Donation'' @ [CHR 0x22]\<rparr>,
       example_refund_credit\<lparr>RefundTransactionId := Some 1, data := Some [],
          description := ''Refund of '' @ [CHR 0x22] @ ''Donation'' @ [CHR 0x22]\<rparr>])"
  by (simp add: createRefundTransaction_def creditTransactionRefund_def creditTransactionOf_def
        refundPlatformTip_def truthy_id_def await_def resolve_def optProp_def
        buildRefund_def netAmount_def Let_def spread_def pick_isFeesOnTop_def
        associateTransactionRefundId_def findAll_ofGroups_def save_def
        txfields.extend_def example_defs)

subsection \<open>Fee percentages and orders\<close>

lemmas example_order_defs =
  example_host_def example_collective_def example_order_def example_fees_default_def
  example_provider_def example_order_deps_def example_card_order_def

lemma array_find_first:
  "(\<exists>i<length vs. vs ! i = array_find p vs \<and> p (array_find p vs) \<and> (\<forall>j<i. \<not> p (vs ! j)))
   \<or> (array_find p vs = Undefined \<and> (\<forall>x \<in> set vs. \<not> p x))"
proof (induction vs)
  case Nil
  then show ?case by simp
next
  case (Cons v vs)
  show ?case
  proof (cases "p v")
    case True
    then show ?thesis by auto
  next
    case False
    from Cons.IH show ?thesis
    proof
      assume "\<exists>i<length vs. vs ! i = array_find p vs \<and> p (array_find p vs) \<and> (\<forall>j<i. \<not> p (vs ! j))"
      then obtain i where i: "i < length vs" "vs ! i = array_find p vs" "p (array_find p vs)"
        "\<forall>j<i. \<not> p (vs ! j)" by blast
      have "\<forall>j<Suc i. \<not> p ((v # vs) ! j)"
      proof (intro allI impI)
        fix j assume "j < Suc i"
        then show "\<not> p ((v # vs) ! j)" using False i(4) by (cases j) auto
      qed
      with i False have "Suc i < length (v # vs) \<and> (v # vs) ! Suc i = array_find p (v # vs)
          \<and> p (array_find p (v # vs)) \<and> (\<forall>j<Suc i. \<not> p ((v # vs) ! j))"
        by simp
      then show ?thesis by blast
    next
      assume "array_find p vs = Undefined \<and> (\<forall>x \<in> set vs. \<not> p x)"
      with False show ?thesis by simp
    qed
  qed
qed

lemma getPlatformFeePercent_eq:
  assumes pm: "paymentMethod order = Some pm"
    and host: "pm_service pm = Some ''opencollective'' \<and> pm_type pm = Some ''manual''
               \<longrightarrow> resolveHost ghc order host_arg \<noteq> None"
  shows "getPlatformFeePercent cfg ghc order host_arg
         = Inr (array_find isNumber
                  (platformFeePrecedence cfg order pm (resolveHost ghc order host_arg)))"
  using pm host
  by (auto simp: getPlatformFeePercent_def platformFeePrecedence_def Let_def split: option.splits)

text \<open>
  C6 (amended): for an order with a payment method and, when that method is
  opencollective/manual, with a host (passed, or found through the collective),
  \<open>getPlatformFeePercent\<close> returns the first value that is a number in the precedence of
  \<open>platformFeePrecedence\<close>: the value at some position is a number, it is returned, and no
  earlier value is a number; when no value is a number the result is \<open>undefined\<close>. For an
  opencollective/manual order without host, and for an order without payment method, it
  throws a \<open>TypeError\<close>, whatever the percentages are.
\<close>

theorem getPlatformFeePercent_precedence:
  "(paymentMethod order = Some pm
      \<and> (pm_service pm = Some ''opencollective'' \<and> pm_type pm = Some ''manual''
           \<longrightarrow> resolveHost ghc order host_arg \<noteq> None)
    \<longrightarrow> (\<exists>v vs. getPlatformFeePercent cfg ghc order host_arg = Inr v
           \<and> vs = platformFeePrecedence cfg order pm (resolveHost ghc order host_arg)
           \<and> ((\<exists>i<length vs. vs ! i = v \<and> isNumber v \<and> (\<forall>j<i. \<not> isNumber (vs ! j)))
              \<or> (v = Undefined \<and> (\<forall>x \<in> set vs. \<not> isNumber x)))))
   \<and> (paymentMethod order = Some pm
      \<and> pm_service pm = Some ''opencollective'' \<and> pm_type pm = Some ''manual''
      \<and> resolveHost ghc order host_arg = None
    \<longrightarrow> getPlatformFeePercent cfg ghc order host_arg = Inl TypeError)
   \<and> (paymentMethod order = None
    \<longrightarrow> getPlatformFeePercent cfg ghc order host_arg = Inl TypeError)"
proof (intro conjI impI)
  assume a: "paymentMethod order = Some pm
      \<and> (pm_service pm = Some ''opencollective'' \<and> pm_type pm = Some ''manual''
           \<longrightarrow> resolveHost ghc order host_arg \<noteq> None)"
  then have pm: "paymentMethod order = Some pm"
    and host: "pm_service pm = Some ''opencollective'' \<and> pm_type pm = Some ''manual''
               \<longrightarrow> resolveHost ghc order host_arg \<noteq> None"
    by simp_all
  show "\<exists>v vs. getPlatformFeePercent cfg ghc order host_arg = Inr v
           \<and> vs = platformFeePrecedence cfg order pm (resolveHost ghc order host_arg)
           \<and> ((\<exists>i<length vs. vs ! i = v \<and> isNumber v \<and> (\<forall>j<i. \<not> isNumber (vs ! j)))
              \<or> (v = Undefined \<and> (\<forall>x \<in> set vs. \<not> isNumber x)))"
    using getPlatformFeePercent_eq [OF pm host, of cfg]
      array_find_first [of "platformFeePrecedence cfg order pm (resolveHost ghc order host_arg)"
        isNumber]
    by auto
next
  assume "paymentMethod order = Some pm
      \<and> pm_service pm = Some ''opencollective'' \<and> pm_type pm = Some ''manual''
      \<and> resolveHost ghc order host_arg = None"
  then show "getPlatformFeePercent cfg ghc order host_arg = Inl TypeError"
    by (simp add: getPlatformFeePercent_def Let_def)
next
  assume "paymentMethod order = None"
  then show "getPlatformFeePercent cfg ghc order host_arg = Inl TypeError"
    by (simp add: getPlatformFeePercent_def Let_def)
qed

theorem getPlatformFeePercent_precedence_witness:
  "paymentMethod example_order
     = Some \<lparr> pm_service = Some ''opencollective'', pm_type = Some ''manual'',
              pm_paid = True, pm_saved = False \<rparr>
   \<and> resolveHost (\<lambda>c. Some example_host) example_order None = Some example_host
   \<and> platformFeePrecedence example_fees_default example_order
        \<lparr> pm_service = Some ''opencollective'', pm_type = Some ''manual'',
          pm_paid = True, pm_saved = False \<rparr> (Some example_host)
      = [String ''4'', Undefined, Number 5, Number 0, Number 3, Number 5]
   \<and> getPlatformFeePercent example_fees_default (\<lambda>c. Some example_host) example_order None
      = Inr (Number 5)
   \<and> resolveHost (\<lambda>c. None) example_order None = None
   \<and> getPlatformFeePercent example_fees_default (\<lambda>c. None) example_order None = Inl TypeError
   \<and> paymentMethod (example_order\<lparr>paymentMethod := None\<rparr>) = None
   \<and> getPlatformFeePercent example_fees_default (\<lambda>c. Some example_host)
        (example_order\<lparr>paymentMethod := None\<rparr>) None = Inl TypeError"
proof -
  let ?pm = "\<lparr> pm_service = Some ''opencollective'', pm_type = Some ''manual'',
              pm_paid = True, pm_saved = False \<rparr>"
  have pm: "paymentMethod example_order = Some ?pm"
    by (simp add: example_order_defs)
  have h: "resolveHost (\<lambda>c. Some example_host) example_order None = Some example_host"
    by (simp add: resolveHost_def)
  have host: "pm_service ?pm = Some ''opencollective'' \<and> pm_type ?pm = Some ''manual''
               \<longrightarrow> resolveHost (\<lambda>c. Some example_host) example_order None \<noteq> None"
    by (simp add: h)
  have vs: "platformFeePrecedence example_fees_default example_order ?pm (Some example_host)
      = [String ''4'', Undefined, Number 5, Number 0, Number 3, Number 5]"
    by (simp add: platformFeePrecedence_def optProp_def example_order_defs)
  obtain v i where v: "getPlatformFeePercent example_fees_default (\<lambda>c. Some example_host) example_order None = Inr v"
     and f: "(i < length [String ''4'', Undefined, Number 5, Number 0, Number 3, Number 5]
               \<and> [String ''4'', Undefined, Number 5, Number 0, Number 3, Number 5] ! i = v
               \<and> isNumber v
               \<and> (\<forall>j<i. \<not> isNumber ([String ''4'', Undefined, Number 5, Number 0, Number 3, Number 5] ! j)))
             \<or> (v = Undefined \<and> (\<forall>x \<in> set [String ''4'', Undefined, Number 5, Number 0, Number 3, Number 5]. \<not> isNumber x))"
    using pm host
      getPlatformFeePercent_precedence
        [of example_order ?pm "\<lambda>c. Some example_host" None example_fees_default]
    unfolding h vs by blast
  have "v = Number 5"
  proof -
    from f have "i < 6 \<and> [String ''4'', Undefined, Number 5, Number 0, Number 3, Number 5] ! i = v
               \<and> isNumber v
               \<and> (\<forall>j<i. \<not> isNumber ([String ''4'', Undefined, Number 5, Number 0, Number 3, Number 5] ! j))"
      by auto
    then have i: "i < 6" and vi: "[String ''4'', Undefined, Number 5, Number 0, Number 3, Number 5] ! i = v"
      and n: "isNumber v"
      and m: "\<forall>j<i. \<not> isNumber ([String ''4'', Undefined, Number 5, Number 0, Number 3, Number 5] ! j)"
      by blast+
    have "\<not> 2 < i" using m by (auto dest: spec [of _ 2])
    then have "i = 0 \<or> i = 1 \<or> i = 2" by arith
    then show ?thesis using vi n by auto
  qed
  then have first: "getPlatformFeePercent example_fees_default (\<lambda>c. Some example_host) example_order None
      = Inr (Number 5)"
    using v by simp
  have h0: "resolveHost (\<lambda>c. None) example_order None = None"
    by (simp add: resolveHost_def)
  have nohost: "getPlatformFeePercent example_fees_default (\<lambda>c. None) example_order None
      = Inl TypeError"
    using pm h0
      getPlatformFeePercent_precedence
        [of example_order ?pm "\<lambda>c. None" None example_fees_default]
    by simp
  have p0: "paymentMethod (example_order\<lparr>paymentMethod := None\<rparr>) = None"
    by simp
  have nopm: "getPlatformFeePercent example_fees_default (\<lambda>c. Some example_host)
        (example_order\<lparr>paymentMethod := None\<rparr>) None = Inl TypeError"
    using p0
      getPlatformFeePercent_precedence
        [of "example_order\<lparr>paymentMethod := None\<rparr>" ?pm "\<lambda>c. Some example_host" None
            example_fees_default]
    by blast
  show ?thesis
    using pm h vs first h0 nohost p0 nopm by simp
qed

text \<open>
  As stated, for every order, C6 fails where the code cannot read what the precedence
  names: the example order by bank transfer with the percentage 4 fixed on its data and no
  host, and the same order with a host and no payment method, both throw a \<open>TypeError\<close>,
  although the first value of the precedence is the number 4.
\<close>

theorem getPlatformFeePercent_no_host_counterexample:
  "optProp (order_data (example_order\<lparr>order_data := Some [(''platformFeePercent'', Number 4)]\<rparr>))
      ''platformFeePercent'' = Number 4
   \<and> getPlatformFeePercent example_fees_default (\<lambda>c. None)
        (example_order\<lparr>order_data := Some [(''platformFeePercent'', Number 4)]\<rparr>) None
      = Inl TypeError
   \<and> getPlatformFeePercent example_fees_default (\<lambda>c. Some example_host)
        (example_order\<lparr>order_data := Some [(''platformFeePercent'', Number 4)],
                        paymentMethod := None\<rparr>) None
      = Inl TypeError"
  by (simp add: getPlatformFeePercent_def resolveHost_def optProp_def Let_def example_order_defs)

text \<open>
  C7: for an order whose collective is a host account, \<open>getHostFeePercent\<close> returns 0,
  whatever the payment method (even none), the percentages on the order, the collective
  and the host, the host passed or found, and the platform defaults.
\<close>

theorem getHostFeePercent_host_account:
  "isHostAccount (collective order) \<Longrightarrow>
     getHostFeePercent cfg ghc order host_arg = Inr (Number 0)"
  by (simp add: getHostFeePercent_def Let_def)

theorem getHostFeePercent_host_account_witness:
  "isHostAccount (collective (example_order\<lparr>collective := example_host\<rparr>))
   \<and> hostFeePercent (collective (example_order\<lparr>collective := example_host\<rparr>)) = Number 10
   \<and> getHostFeePercent example_fees_default (\<lambda>c. None) (example_order\<lparr>collective := example_host\<rparr>) None
       = Inr (Number 0)"
proof -
  have h: "isHostAccount (collective (example_order\<lparr>collective := example_host\<rparr>))"
    by (simp add: example_order_defs)
  show ?thesis
    using h getHostFeePercent_host_account [OF h, of example_fees_default "\<lambda>c. None" None]
    by (simp add: example_order_defs)
qed

text \<open>
  C8 (amended): \<open>executeOrder\<close> rejects with an error and leaves the order instance and
  the world as they were -- whatever the providers and the other functions called would
  do, so the order is not charged and its status not changed -- when the order has a
  \<open>processedAt\<close>, when its interval is a non-empty string other than \<open>month\<close> and \<open>year\<close>,
  and when its amount is missing or 0.
\<close>

theorem executeOrder_rejects:
  "(order_arg = Some order \<and> processedAt order \<noteq> None \<longrightarrow>
      (\<exists>e. executeOrder deps user_arg order_arg options w = (Inl e, order_arg, w)))
   \<and> (order_arg = Some order \<and> interval order = Some i \<and> i \<noteq> [] \<and> i \<noteq> ''month'' \<and> i \<noteq> ''year''
        \<longrightarrow> (\<exists>e. executeOrder deps user_arg order_arg options w = (Inl e, order_arg, w)))
   \<and> (order_arg = Some order \<and> (totalAmount order = None \<or> totalAmount order = Some 0) \<longrightarrow>
      (\<exists>e. executeOrder deps user_arg order_arg options w = (Inl e, order_arg, w)))"
proof (intro conjI impI)
  assume "order_arg = Some order \<and> processedAt order \<noteq> None"
  then show "\<exists>e. executeOrder deps user_arg order_arg options w = (Inl e, order_arg, w)"
    by (cases user_arg) (auto simp: executeOrder_def)
next
  assume "order_arg = Some order \<and> interval order = Some i \<and> i \<noteq> [] \<and> i \<noteq> ''month'' \<and> i \<noteq> ''year''"
  then show "\<exists>e. executeOrder deps user_arg order_arg options w = (Inl e, order_arg, w)"
    by (cases user_arg; cases "processedAt order") (auto simp: executeOrder_def validatePayment_def)
next
  assume "order_arg = Some order \<and> (totalAmount order = None \<or> totalAmount order = Some 0)"
  then show "\<exists>e. executeOrder deps user_arg order_arg options w = (Inl e, order_arg, w)"
    by (cases user_arg; cases "processedAt order") (auto simp: executeOrder_def validatePayment_def)
qed

text \<open>
  As stated, for every interval that is neither \<open>null\<close>, \<open>month\<close> nor \<open>year\<close>, C8 fails for
  the empty string, which \<open>payment.interval && ...\<close> treats as \<open>null\<close>: the example order
  with interval \<open>''\<close> is charged once and marked \<open>PAID\<close>.
\<close>

theorem executeOrder_empty_interval_counterexample:
  "interval (example_card_order\<lparr>interval := Some []\<rparr>) \<noteq> None
   \<and> interval (example_card_order\<lparr>interval := Some []\<rparr>) \<noteq> Some ''month''
   \<and> interval (example_card_order\<lparr>interval := Some []\<rparr>) \<noteq> Some ''year''
   \<and> executeOrder example_order_deps (Some \<lparr>user_id = 7\<rparr>)
        (Some (example_card_order\<lparr>interval := Some []\<rparr>)) [] 0
      = (Inr (),
         Some (example_card_order\<lparr>interval := Some [], order_status := ''PAID'',
                                   processedAt := Some 1000\<rparr>),
         1)"
  by (simp add: executeOrder_def validatePayment_def processValidOrder_def afterCharge_def
        processOrder_def findPaymentMethodProvider_def or_default_def order_update_def
        sendEmailNotifications_def createSubscription_def await_def resolve_def optProp_def
        example_order_defs example_credit_def)

theorem executeOrder_rejects_witness:
  "executeOrder example_order_deps (Some \<lparr>user_id = 7\<rparr>)
        (Some (example_card_order\<lparr>processedAt := Some 900\<rparr>)) [] 0
      = (Inl (OrderAlreadyProcessed 50 900), Some (example_card_order\<lparr>processedAt := Some 900\<rparr>), 0)
   \<and> executeOrder example_order_deps (Some \<lparr>user_id = 7\<rparr>)
        (Some (example_card_order\<lparr>interval := Some ''week''\<rparr>)) [] 0
      = (Inl (Error ''Interval should be null, month or year.''),
         Some (example_card_order\<lparr>interval := Some ''week''\<rparr>), 0)
   \<and> executeOrder example_order_deps (Some \<lparr>user_id = 7\<rparr>)
        (Some (example_card_order\<lparr>totalAmount := Some 0\<rparr>)) [] 0
      = (Inl (Error ''payment.amount missing''),
         Some (example_card_order\<lparr>totalAmount := Some 0\<rparr>), 0)"
proof -
  let ?u = "Some \<lparr>user_id = 7\<rparr>"
  let ?o1 = "example_card_order\<lparr>processedAt := Some 900\<rparr>"
  let ?o2 = "example_card_order\<lparr>interval := Some ''week''\<rparr>"
  let ?o3 = "example_card_order\<lparr>totalAmount := Some 0\<rparr>"
  have h1: "Some ?o1 = Some ?o1 \<and> processedAt ?o1 \<noteq> None" by simp
  have h2: "Some ?o2 = Some ?o2 \<and> interval ?o2 = Some ''week'' \<and> ''week'' \<noteq> []
            \<and> ''week'' \<noteq> ''month'' \<and> ''week'' \<noteq> ''year''" by simp
  have h3: "Some ?o3 = Some ?o3 \<and> (totalAmount ?o3 = None \<or> totalAmount ?o3 = Some 0)" by simp
  obtain e1 where e1: "executeOrder example_order_deps ?u (Some ?o1) [] 0 = (Inl e1, Some ?o1, 0)"
    using h1 executeOrder_rejects [of "Some ?o1" ?o1 example_order_deps ?u "[]" 0 "''week''"] by blast
  obtain e2 where e2: "executeOrder example_order_deps ?u (Some ?o2) [] 0 = (Inl e2, Some ?o2, 0)"
    using h2 executeOrder_rejects [of "Some ?o2" ?o2 example_order_deps ?u "[]" 0 "''week''"] by blast
  obtain e3 where e3: "executeOrder example_order_deps ?u (Some ?o3) [] 0 = (Inl e3, Some ?o3, 0)"
    using h3 executeOrder_rejects [of "Some ?o3" ?o3 example_order_deps ?u "[]" 0 "''week''"] by blast
  have v1: "fst (executeOrder example_order_deps ?u (Some ?o1) [] 0) = Inl (OrderAlreadyProcessed 50 900)"
    by (simp add: executeOrder_def example_card_order_def example_order_def)
  have v2: "fst (executeOrder example_order_deps ?u (Some ?o2) [] 0)
              = Inl (Error ''Interval should be null, month or year.'')"
    by (simp add: executeOrder_def validatePayment_def example_card_order_def example_order_def)
  have v3: "fst (executeOrder example_order_deps ?u (Some ?o3) [] 0) = Inl (Error ''payment.amount missing'')"
    by (simp add: executeOrder_def validatePayment_def example_card_order_def example_order_def)
  show ?thesis
    using e1 e2 e3 v1 v2 v3 by simp
qed


subsection \<open>Rounding in double precision\<close>

lemma floorlog2_bounds: "0 < n \<Longrightarrow> 2 ^ floorlog2 n \<le> n \<and> n < 2 ^ Suc (floorlog2 n)"
proof (induction n rule: floorlog2.induct)
  case (1 n)
  show ?case
  proof (cases "n < 2")
    case True
    with "1.prems" have "n = 1" by simp
    then show ?thesis by (simp add: floorlog2.simps)
  next
    case False
    then have pos: "0 < n div 2" by simp
    have ih: "2 ^ floorlog2 (n div 2) \<le> n div 2 \<and> n div 2 < 2 ^ Suc (floorlog2 (n div 2))"
      using "1.IH" [OF False pos] .
    have fl: "floorlog2 n = Suc (floorlog2 (n div 2))"
      using False by (subst floorlog2.simps) simp
    have lo: "2 * 2 ^ floorlog2 (n div 2) \<le> n" using ih by linarith
    have "Suc (n div 2) \<le> 2 ^ Suc (floorlog2 (n div 2))" using ih by simp
    then have "2 * Suc (n div 2) \<le> 2 * 2 ^ Suc (floorlog2 (n div 2))" by simp
    moreover have "n < 2 * Suc (n div 2)" by presburger
    ultimately have hi: "n < 2 * 2 ^ Suc (floorlog2 (n div 2))" by linarith
    show ?thesis using lo hi by (simp add: fl)
  qed
qed

lemma powi_Suc: "(2::rat) powi (e + 1) = 2 * 2 powi e"
  by (simp add: power_int_add)

lemma powi_mono: "a \<le> b \<Longrightarrow> (2::rat) powi a \<le> 2 powi b"
  by (rule power_int_increasing) simp_all

lemma powi_strict: "a < b \<Longrightarrow> (2::rat) powi a < 2 powi b"
  by (rule power_int_strict_increasing) simp_all

lemma exponent_bounds:
  assumes "x \<noteq> 0"
  shows "2 powi (exponent x) \<le> \<bar>x\<bar> \<and> \<bar>x\<bar> < 2 powi (exponent x + 1)"
proof (cases "1 \<le> \<bar>x\<bar>")
  case True
  define n where "n = nat \<lfloor>\<bar>x\<bar>\<rfloor>"
  have n1: "0 < n" using True by (simp add: n_def)
  have e: "exponent x = int (floorlog2 n)" using True by (simp add: exponent_def n_def)
  have nx: "of_nat n \<le> \<bar>x\<bar>" "\<bar>x\<bar> < of_nat n + 1"
    using True unfolding n_def by (simp_all add: of_nat_nat) linarith+
  from floorlog2_bounds [OF n1] have b: "2 ^ floorlog2 n \<le> n" "Suc n \<le> 2 ^ Suc (floorlog2 n)"
    by simp_all
  have "(2::rat) ^ floorlog2 n \<le> of_nat n"
    using b(1) by (metis of_nat_le_iff of_nat_numeral of_nat_power)
  moreover have "2 powi (exponent x) = (2::rat) ^ floorlog2 n" by (simp add: e)
  ultimately have lo: "2 powi (exponent x) \<le> \<bar>x\<bar>" using nx(1) by linarith
  have "(of_nat (Suc n) :: rat) \<le> 2 ^ Suc (floorlog2 n)"
    using b(2) by (metis of_nat_le_iff of_nat_numeral of_nat_power)
  then have "\<bar>x\<bar> < 2 * 2 ^ floorlog2 n" using nx(2) by simp
  moreover have "2 powi (exponent x + 1) = 2 * (2::rat) ^ floorlog2 n" by (simp add: e powi_Suc)
  ultimately have hi: "\<bar>x\<bar> < 2 powi (exponent x + 1)" by linarith
  show ?thesis using lo hi by simp
next
  case False
  define y where "y = 1 / \<bar>x\<bar>"
  have xpos: "0 < \<bar>x\<bar>" using assms by simp
  have y1: "1 < y" using False xpos by (simp add: y_def)
  define n where "n = nat \<lfloor>y\<rfloor>"
  define k where "k = int (floorlog2 n)"
  have n1: "0 < n" using y1 by (simp add: n_def)
  have ny: "of_nat n \<le> y" "y < of_nat n + 1"
    using y1 unfolding n_def by (simp_all add: of_nat_nat) linarith+
  from floorlog2_bounds [OF n1] have b: "2 ^ floorlog2 n \<le> n" "Suc n \<le> 2 ^ Suc (floorlog2 n)"
    by simp_all
  have "(2::rat) ^ floorlog2 n \<le> of_nat n"
    using b(1) by (metis of_nat_le_iff of_nat_numeral of_nat_power)
  moreover have "2 powi k = (2::rat) ^ floorlog2 n" by (simp add: k_def)
  ultimately have ylo: "2 powi k \<le> y" using ny(1) by linarith
  have "(of_nat (Suc n) :: rat) \<le> 2 ^ Suc (floorlog2 n)"
    using b(2) by (metis of_nat_le_iff of_nat_numeral of_nat_power)
  then have "y < 2 * 2 ^ floorlog2 n" using ny(2) by simp
  moreover have "2 powi (k + 1) = 2 * (2::rat) ^ floorlog2 n" by (simp add: k_def powi_Suc)
  ultimately have yhi: "y < 2 powi (k + 1)" by linarith
  have x_eq: "\<bar>x\<bar> = 1 / y" using xpos by (simp add: y_def)
  have p: "0 < (2::rat) powi k" "0 < (2::rat) powi (k + 1)" by simp_all
  have xhi: "\<bar>x\<bar> \<le> 2 powi (- k)"
    using ylo p(1) y1 unfolding x_eq by (simp add: power_int_minus field_simps)
  have xlo: "2 powi (- k - 1) < \<bar>x\<bar>"
  proof -
    have "1 / 2 powi (k + 1) < 1 / y" using yhi y1 p(2) by (simp add: field_simps)
    moreover have "(2::rat) powi (- k - 1) = 1 / 2 powi (k + 1)"
    proof -
      have "(2::rat) powi (- k - 1) = 2 powi (- (k + 1))"
        by (rule arg_cong [where f = "\<lambda>e. 2 powi e"]) simp
      also have "\<dots> = inverse (2 powi (k + 1))" by (rule power_int_minus)
      finally show ?thesis by (simp only: inverse_eq_divide)
    qed
    ultimately show ?thesis by (simp add: x_eq)
  qed
  have e: "exponent x = (if 2 powi (- k) \<le> \<bar>x\<bar> then - k else - k - 1)"
    using False by (simp add: exponent_def Let_def k_def n_def y_def)
  show ?thesis
  proof (cases "2 powi (- k) \<le> \<bar>x\<bar>")
    case True
    then have "\<bar>x\<bar> = 2 powi (- k)" using xhi by simp
    moreover have "(2::rat) powi (- k) < 2 powi (- k + 1)" by (rule powi_strict) simp
    ultimately show ?thesis using e True by simp
  next
    case F: False
    then have "\<bar>x\<bar> < 2 powi (- k)" by simp
    then show ?thesis using e F xlo by simp
  qed
qed

lemma exponent_unique:
  assumes "2 powi e \<le> \<bar>x\<bar>" "\<bar>x\<bar> < 2 powi (e + 1)"
  shows "exponent x = e"
proof -
  have p: "0 < (2::rat) powi e" by simp
  have "x \<noteq> 0"
  proof
    assume "x = 0"
    with assms(1) have "2 powi e \<le> (0::rat)" by simp
    with p show False by linarith
  qed
  from exponent_bounds [OF this]
  have b: "2 powi (exponent x) \<le> \<bar>x\<bar>" "\<bar>x\<bar> < 2 powi (exponent x + 1)" by simp_all
  have "\<not> exponent x < e"
  proof
    assume "exponent x < e"
    then have "(2::rat) powi (exponent x + 1) \<le> 2 powi e" by (intro powi_mono) simp
    with b(2) assms(1) show False by simp
  qed
  moreover have "\<not> e < exponent x"
  proof
    assume "e < exponent x"
    then have "(2::rat) powi (e + 1) \<le> 2 powi (exponent x)" by (intro powi_mono) simp
    with b(1) assms(2) show False by simp
  qed
  ultimately show ?thesis by simp
qed

lemma roundTiesToEven_nearest:
  "of_int m - 1 / 2 < r \<Longrightarrow> r < of_int m + 1 / 2 \<Longrightarrow> roundTiesToEven r = m"
proof -
  assume a: "of_int m - 1 / 2 < r" "r < of_int m + 1 / 2"
  have "\<lfloor>r\<rfloor> = m \<or> \<lfloor>r\<rfloor> = m - 1" using a by linarith
  then show ?thesis
  proof
    assume f: "\<lfloor>r\<rfloor> = m"
    then have "r - of_int \<lfloor>r\<rfloor> < 1 / 2" using a by simp
    then show ?thesis by (simp add: roundTiesToEven_def Let_def f)
  next
    assume f: "\<lfloor>r\<rfloor> = m - 1"
    then have "1 / 2 < r - of_int \<lfloor>r\<rfloor>" using a by simp
    then show ?thesis using f by (simp add: roundTiesToEven_def Let_def)
  qed
qed

lemma toNumber_eqI:
  assumes e: "2 powi e \<le> \<bar>x\<bar>" "\<bar>x\<bar> < 2 powi (e + 1)" "- 1022 \<le> e"
    and m: "of_int m - 1 / 2 < x / 2 powi (e - 52)" "x / 2 powi (e - 52) < of_int m + 1 / 2"
    and y: "y = of_int m * 2 powi (e - 52)" "\<bar>y\<bar> < 2 powi 1024"
  shows "toNumber x = Finite y"
proof -
  have p: "0 < (2::rat) powi e" by simp
  have x0: "x \<noteq> 0"
  proof
    assume "x = 0"
    with e(1) have "2 powi e \<le> (0::rat)" by simp
    with p show False by linarith
  qed
  have ex: "exponent x = e" by (rule exponent_unique [OF e(1,2)])
  have mx: "max (exponent x) (- 1022) = e" using ex e(3) by simp
  have r: "roundTiesToEven (x / 2 powi (e - 52)) = m" by (rule roundTiesToEven_nearest [OF m])
  have "\<not> 2 powi 1024 \<le> y" "\<not> y \<le> - (2 powi 1024)" using y(2) by linarith+
  then show ?thesis
    using x0 unfolding toNumber_def Let_def mx r y(1) [symmetric] by simp
qed

lemma roundTiesToEven_error: "\<bar>of_int (roundTiesToEven r) - r\<bar> \<le> 1 / 2"
proof -
  have f: "of_int \<lfloor>r\<rfloor> \<le> r" "r < of_int \<lfloor>r\<rfloor> + 1" by linarith+
  show ?thesis
    unfolding roundTiesToEven_def Let_def using f by (auto simp: abs_le_iff)
qed

lemma toNumber_error:
  assumes e: "2 powi e \<le> \<bar>x\<bar>" "\<bar>x\<bar> < 2 powi (e + 1)" "- 1022 \<le> e" "e \<le> 1000"
  shows "\<exists>y. toNumber x = Finite y \<and> \<bar>y - x\<bar> \<le> 2 powi (e - 53)"
proof -
  define u :: rat where "u = 2 powi (e - 52)"
  define m where "m = roundTiesToEven (x / u)"
  define y where "y = of_int m * u"
  have u0: "0 < u" by (simp add: u_def)
  have p: "0 < (2::rat) powi e" by simp
  have x0: "x \<noteq> 0"
  proof
    assume "x = 0"
    with e(1) have "2 powi e \<le> (0::rat)" by simp
    with p show False by linarith
  qed
  have ex: "exponent x = e" by (rule exponent_unique [OF e(1,2)])
  have mx: "max (exponent x) (- 1022) = e" using ex e(3) by simp
  have "\<bar>of_int m - x / u\<bar> \<le> 1 / 2" unfolding m_def by (rule roundTiesToEven_error)
  then have "\<bar>of_int m - x / u\<bar> * u \<le> 1 / 2 * u" using u0 by (simp add: mult_right_mono)
  moreover have "\<bar>of_int m - x / u\<bar> * u = \<bar>y - x\<bar>"
  proof -
    have "\<bar>of_int m - x / u\<bar> * u = \<bar>(of_int m - x / u) * u\<bar>" using u0 by (simp add: abs_mult)
    also have "(of_int m - x / u) * u = y - x" using u0 by (simp add: y_def field_simps)
    finally show ?thesis .
  qed
  moreover have "1 / 2 * u = 2 powi (e - 53)"
  proof -
    have "(2::rat) powi (e - 52) = 2 powi ((e - 53) + 1)" by (rule arg_cong [where f = "\<lambda>e. 2 powi e"]) simp
    also have "\<dots> = 2 * 2 powi (e - 53)" by (rule powi_Suc)
    finally show ?thesis by (simp add: u_def)
  qed
  ultimately have err: "\<bar>y - x\<bar> \<le> 2 powi (e - 53)" by simp
  have "(2::rat) powi (e - 53) \<le> 2 powi e" by (rule powi_mono) simp
  then have "\<bar>y\<bar> < 2 powi (e + 1) + 2 powi e" using err e(2) by linarith
  moreover have "(2::rat) powi (e + 1) \<le> 2 powi 1001"
    by (rule powi_mono) (simp add: e(4))
  moreover have "(2::rat) powi e \<le> 2 powi 1001"
    by (rule powi_mono) (use e(4) in simp)
  moreover have "(2::rat) powi 1001 + 2 powi 1001 \<le> 2 powi 1024" by simp
  ultimately have fin: "\<bar>y\<bar> < 2 powi 1024" by linarith
  then have "\<not> 2 powi 1024 \<le> y" "\<not> y \<le> - (2 powi 1024)" by linarith+
  then have "toNumber x = Finite y"
    using x0 unfolding toNumber_def Let_def mx u_def [symmetric] m_def [symmetric] y_def [symmetric]
    by simp
  with err show ?thesis by blast
qed

lemma toNumber_exact:
  assumes e: "2 powi e \<le> \<bar>x\<bar>" "\<bar>x\<bar> < 2 powi (e + 1)" "- 1022 \<le> e" "e \<le> 1000"
    and m: "x / 2 powi (e - 52) = of_int m"
  shows "toNumber x = Finite x"
proof (rule toNumber_eqI [OF e(1,2,3), where m = m])
  show "of_int m - 1 / 2 < x / 2 powi (e - 52)" "x / 2 powi (e - 52) < of_int m + 1 / 2"
    by (simp_all add: m)
  show "x = of_int m * 2 powi (e - 52)"
    using m by (simp add: field_simps)
  have "(2::rat) powi (e + 1) \<le> 2 powi 1024" using e(4) by (intro powi_mono) simp
  then show "\<bar>x\<bar> < 2 powi 1024" using e(2) by linarith
qed

lemma powi_nonneg_int: "0 \<le> d \<Longrightarrow> \<exists>j::int. (2::rat) powi d = of_int j"
proof -
  assume "0 \<le> d"
  then have "(2::rat) powi d = 2 ^ nat d" by (simp add: power_int_def)
  also have "\<dots> = of_int (2 ^ nat d)" by simp
  finally show ?thesis by blast
qed

text \<open>A multiple of \<open>2 powi c\<close> with \<open>c \<ge> e - 52\<close> is a double when the exponent fits.\<close>

lemma toNumber_multiple:
  assumes e: "2 powi e \<le> \<bar>x\<bar>" "\<bar>x\<bar> < 2 powi (e + 1)" "- 1022 \<le> e" "e \<le> 1000"
    and x: "x = of_int a * 2 powi c" and c: "e - 52 \<le> c"
  shows "toNumber x = Finite x"
proof -
  obtain j :: int where j: "(2::rat) powi (c - (e - 52)) = of_int j"
    using powi_nonneg_int [of "c - (e - 52)"] c by auto
  have "(2::rat) powi c = 2 powi ((c - (e - 52)) + (e - 52))"
    by (rule arg_cong [where f = "\<lambda>e. 2 powi e"]) simp
  also have "\<dots> = 2 powi (c - (e - 52)) * 2 powi (e - 52)" by (rule power_int_add) simp
  finally have "x / 2 powi (e - 52) = of_int a * of_int j" by (simp add: x j)
  then have "x / 2 powi (e - 52) = of_int (a * j)" by simp
  then show ?thesis by (rule toNumber_exact [OF e])
qed

lemma exponent_less:
  assumes "x \<noteq> 0" "\<bar>x\<bar> < 2 powi b"
  shows "exponent x < b"
proof (rule ccontr)
  assume "\<not> exponent x < b"
  then have "(2::rat) powi b \<le> 2 powi (exponent x)" by (intro powi_mono) simp
  with exponent_bounds [OF assms(1)] assms(2) show False by linarith
qed

lemma exponent_ge:
  assumes "2 powi a \<le> \<bar>x\<bar>"
  shows "a \<le> exponent x"
proof (rule ccontr)
  have p: "0 < (2::rat) powi a" by simp
  have x0: "x \<noteq> 0"
  proof
    assume "x = 0"
    with assms have "2 powi a \<le> (0::rat)" by simp
    with p show False by linarith
  qed
  assume "\<not> a \<le> exponent x"
  then have "(2::rat) powi (exponent x + 1) \<le> 2 powi a" by (intro powi_mono) simp
  with exponent_bounds [OF x0] assms show False by linarith
qed

lemma toNumber_of_int:
  assumes "\<bar>n\<bar> < 2 ^ 53"
  shows "toNumber (of_int n) = Finite (of_int n)"
proof (cases "n = 0")
  case True
  then show ?thesis by (simp add: toNumber_def)
next
  case False
  define x :: rat where "x = of_int n"
  have x0: "x \<noteq> 0" using False by (simp add: x_def)
  have ax: "\<bar>x\<bar> = of_int \<bar>n\<bar>" by (simp add: x_def)
  have "1 \<le> \<bar>n\<bar>" using False by simp
  then have "(1::rat) \<le> of_int \<bar>n\<bar>" by (metis of_int_1_le_iff)
  then have lo: "2 powi 0 \<le> \<bar>x\<bar>" by (simp add: ax)
  have "(of_int \<bar>n\<bar> :: rat) < of_int (2 ^ 53)" using assms by (simp only: of_int_less_iff)
  then have hi: "\<bar>x\<bar> < 2 powi 53" by (simp add: ax)
  have e0: "0 \<le> exponent x" by (rule exponent_ge [OF lo])
  have e53: "exponent x < 53" by (rule exponent_less [OF x0 hi])
  have "toNumber x = Finite x"
  proof (rule toNumber_multiple [where e = "exponent x" and a = n and c = 0])
    show "2 powi exponent x \<le> \<bar>x\<bar>" "\<bar>x\<bar> < 2 powi (exponent x + 1)"
      using exponent_bounds [OF x0] by simp_all
    show "- 1022 \<le> exponent x" "exponent x \<le> 1000" "exponent x - 52 \<le> 0"
      using e0 e53 by simp_all
    show "x = of_int n * 2 powi 0" by (simp add: x_def)
  qed
  then show ?thesis by (simp add: x_def)
qed

lemma round_of_quotient:
  assumes "\<bar>n\<bar> < 2 ^ 53"
  shows "\<exists>q. toNumber (of_int n / 100) = Finite q \<and> \<lfloor>q + 1 / 2\<rfloor> = \<lfloor>(of_int n :: rat) / 100 + 1 / 2\<rfloor>"
proof (cases "n = 0")
  case True
  then show ?thesis by (simp add: toNumber_def)
next
  case False
  define x :: rat where "x = of_int n / 100"
  define k where "k = \<lfloor>x + 1 / 2\<rfloor>"
  have x0: "x \<noteq> 0" using False by (simp add: x_def)
  have ax: "\<bar>x\<bar> = of_int \<bar>n\<bar> / 100" by (simp add: x_def)
  have "1 \<le> \<bar>n\<bar>" using False by simp
  then have n1: "(1::rat) \<le> of_int \<bar>n\<bar>" by (metis of_int_1_le_iff)
  have "(of_int \<bar>n\<bar> :: rat) < of_int (2 ^ 53)" using assms by (simp only: of_int_less_iff)
  then have n53: "(of_int \<bar>n\<bar> :: rat) < 2 ^ 53" by simp
  have lo: "2 powi (- 7) \<le> \<bar>x\<bar>" using n1 by (simp add: ax)
  have hi: "\<bar>x\<bar> < 2 powi 47" using n53 by (simp add: ax)
  have e7: "- 7 \<le> exponent x" by (rule exponent_ge [OF lo])
  have e47: "exponent x < 47" by (rule exponent_less [OF x0 hi])
  have b: "2 powi exponent x \<le> \<bar>x\<bar>" "\<bar>x\<bar> < 2 powi (exponent x + 1)"
    using exponent_bounds [OF x0] by simp_all
  have r: "- 1022 \<le> exponent x" "exponent x \<le> 1000" using e7 e47 by simp_all
  have kx: "of_int k \<le> x + 1 / 2" "x + 1 / 2 < of_int k + 1" unfolding k_def by linarith+
  show ?thesis
  proof (cases "x + 1 / 2 = of_int k")
    case True
    then have "x = of_int (2 * k - 1) * 2 powi (- 1)" by simp
    moreover have "exponent x - 52 \<le> - 1" using e47 by simp
    ultimately have "toNumber x = Finite x" by (rule toNumber_multiple [OF b r])
    then have "toNumber x = Finite x \<and> \<lfloor>x + 1 / 2\<rfloor> = \<lfloor>x + 1 / 2\<rfloor>" by simp
    then show ?thesis unfolding x_def by (rule exI)
  next
    case nt: False
    have nx: "of_int n = 100 * x" by (simp add: x_def)
    have "of_int k < x + 1 / 2" using kx(1) nt by simp
    then have "(of_int (100 * k) :: rat) < of_int (n + 50)" by (simp add: nx)
    then have "100 * k < n + 50" by (simp only: of_int_less_iff)
    then have "100 * k + 1 \<le> n + 50" by simp
    then have "(of_int (100 * k + 1) :: rat) \<le> of_int (n + 50)" by (simp only: of_int_le_iff)
    then have l1: "of_int k + 1 / 100 \<le> x + 1 / 2" by (simp add: nx)
    have "(of_int (n + 50) :: rat) < of_int (100 * k + 100)" using kx(2) by (simp add: nx)
    then have "n + 50 < 100 * k + 100" by (simp only: of_int_less_iff)
    then have "n + 50 \<le> 100 * k + 99" by simp
    then have "(of_int (n + 50) :: rat) \<le> of_int (100 * k + 99)" by (simp only: of_int_le_iff)
    then have l2: "x + 1 / 2 \<le> of_int k + 99 / 100" by (simp add: nx)
    obtain q where q: "toNumber x = Finite q" "\<bar>q - x\<bar> \<le> 2 powi (exponent x - 53)"
      using toNumber_error [OF b r] by blast
    have "(2::rat) powi (exponent x - 53) \<le> 2 powi (- 7)"
      by (rule powi_mono) (use e47 in simp)
    then have "\<bar>q - x\<bar> \<le> 1 / 128" using q(2) by simp
    then have "of_int k \<le> q + 1 / 2" "q + 1 / 2 < of_int k + 1" using l1 l2 by linarith+
    then have "\<lfloor>q + 1 / 2\<rfloor> = k" by (rule floor_unique)
    then have "toNumber x = Finite q \<and> \<lfloor>q + 1 / 2\<rfloor> = \<lfloor>x + 1 / 2\<rfloor>"
      using q(1) by (simp add: k_def)
    then show ?thesis unfolding x_def by (rule exI)
  qed
qed

lemma calcFee_integer_percent:
  assumes "\<bar>amt * p\<bar> < 2 ^ 53"
  shows "calcFee amt (of_int p)
         = Finite (of_int \<lfloor>(of_int amt :: rat) * of_int p / 100 + 1 / 2\<rfloor>)"
proof -
  have m: "multiply (of_int amt) (of_int p) = Finite (of_int (amt * p))"
    using toNumber_of_int [OF assms] by (simp add: multiply_def)
  obtain q where q: "toNumber (of_int (amt * p) / 100) = Finite q"
      "\<lfloor>q + 1 / 2\<rfloor> = \<lfloor>(of_int (amt * p) :: rat) / 100 + 1 / 2\<rfloor>"
    using round_of_quotient [OF assms] by blast
  show ?thesis
    using q by (simp add: calcFee_def m divide_by_def Math_round_def)
qed

lemma floor_numeral_quotient:
  "\<lfloor>(numeral a / numeral b :: rat)\<rfloor> = numeral a div numeral b"
  by (metis floor_divide_of_int_eq of_int_numeral)

lemma double_of_seven_tenths:
  "toNumber (7 / 10) = Finite (3152519739159347 / 4503599627370496)"
  by (rule toNumber_eqI [where e = "- 1" and m = 6305039478318694]) simp_all

lemma calcFee_5500_seven_tenths:
  "calcFee 5500 (3152519739159347 / 4503599627370496) = Finite 38"
proof -
  have m: "multiply 5500 (3152519739159347 / 4503599627370496)
           = Finite (8466239533875199 / 2199023255552)"
    unfolding multiply_def
    by (rule toNumber_eqI [where e = 11 and m = 8466239533875199]) simp_all
  have d: "toNumber (8466239533875199 / 219902325555200)
           = Finite (5418393301680127 / 140737488355328)"
    by (rule toNumber_eqI [where e = 5 and m = 5418393301680127]) simp_all
  show ?thesis
    by (simp add: calcFee_def m divide_by_def d Math_round_def floor_numeral_quotient)
qed

lemma calcFee_3500_seven_tenths:
  "calcFee 3500 (3152519739159347 / 4503599627370496) = Finite 25"
proof -
  have m: "multiply 3500 (3152519739159347 / 4503599627370496) = Finite 2450"
    unfolding multiply_def
    by (rule toNumber_eqI [where e = 11 and m = 5387606976102400]) simp_all
  have d: "toNumber (49 / 2) = Finite (49 / 2)"
    by (rule toNumber_eqI [where e = 4 and m = 6896136929411072]) simp_all
  show ?thesis
    by (simp add: calcFee_def m divide_by_def d Math_round_def)
qed

lemma calcFee_100_three_and_a_half: "calcFee 100 (7 / 2) = Finite 4"
proof -
  have m: "multiply 100 (7 / 2) = Finite 350"
    unfolding multiply_def
    by (rule toNumber_eqI [where e = 8 and m = 6157265115545600]) simp_all
  have d: "toNumber (7 / 2) = Finite (7 / 2)"
    by (rule toNumber_eqI [where e = 1 and m = 7881299347898368]) simp_all
  show ?thesis
    by (simp add: calcFee_def m divide_by_def d Math_round_def)
qed

text \<open>
  C9 (amended): \<open>calcFee\<close> returns the double-precision quotient \<open>q = (amount * fee) / 100\<close>
  (when it is finite) rounded to the nearest integer, a half rounded towards positive
  infinity: the result \<open>r\<close> is the one integer with \<open>r - 1/2 \<le> q < r + 1/2\<close>, and
  \<open>q = k + 1/2\<close> gives \<open>k + 1\<close>, also below zero. For a whole-number percentage with
  \<open>\<bar>amount * fee\<bar> < 2^53\<close> this is the exact \<open>amount * fee / 100\<close> rounded in that way; and
  \<open>calcFee(100, 3.5) = 4\<close>.
\<close>

theorem calcFee_rounds_double_quotient:
  "(divide_by (multiply (of_int amt) fee) 100 = Finite q \<longrightarrow>
      (\<exists>r. calcFee amt fee = Finite (of_int r)
           \<and> of_int r - 1 / 2 \<le> q \<and> q < of_int r + 1 / 2
           \<and> (\<forall>r'. of_int r' - 1 / 2 \<le> q \<and> q < of_int r' + 1 / 2 \<longrightarrow> r' = r)
           \<and> (\<forall>k. q = of_int k + 1 / 2 \<longrightarrow> r = k + 1)))
   \<and> (\<bar>amt * p\<bar> < 2 ^ 53 \<longrightarrow>
        calcFee amt (of_int p)
          = Finite (of_int \<lfloor>(of_int amt :: rat) * of_int p / 100 + 1 / 2\<rfloor>))
   \<and> calcFee 100 (7 / 2) = Finite 4"
proof (intro conjI impI)
  assume q: "divide_by (multiply (of_int amt) fee) 100 = Finite q"
  define r where "r = \<lfloor>q + 1 / 2\<rfloor>"
  have c: "calcFee amt fee = Finite (of_int r)"
    by (simp add: calcFee_def q Math_round_def r_def)
  have lo: "of_int r - 1 / 2 \<le> q" and hi: "q < of_int r + 1 / 2"
    unfolding r_def by linarith+
  have uniq: "r' = r" if "of_int r' - 1 / 2 \<le> q \<and> q < of_int r' + 1 / 2" for r'
  proof -
    from that have "of_int r' \<le> q + 1 / 2" and "q + 1 / 2 < of_int r' + 1" by linarith+
    then have "\<lfloor>q + 1 / 2\<rfloor> = r'" by (rule floor_unique)
    then show ?thesis by (simp add: r_def)
  qed
  have half: "r = k + 1" if "q = of_int k + 1 / 2" for k
  proof -
    have "q + 1 / 2 = of_int (k + 1)" using that by simp
    then have "\<lfloor>q + 1 / 2\<rfloor> = k + 1" by (metis floor_of_int)
    then show ?thesis by (simp add: r_def)
  qed
  show "\<exists>r. calcFee amt fee = Finite (of_int r)
           \<and> of_int r - 1 / 2 \<le> q \<and> q < of_int r + 1 / 2
           \<and> (\<forall>r'. of_int r' - 1 / 2 \<le> q \<and> q < of_int r' + 1 / 2 \<longrightarrow> r' = r)
           \<and> (\<forall>k. q = of_int k + 1 / 2 \<longrightarrow> r = k + 1)"
    using c lo hi uniq half by blast
next
  assume "\<bar>amt * p\<bar> < 2 ^ 53"
  then show "calcFee amt (of_int p)
          = Finite (of_int \<lfloor>(of_int amt :: rat) * of_int p / 100 + 1 / 2\<rfloor>)"
    by (rule calcFee_integer_percent)
next
  show "calcFee 100 (7 / 2) = Finite 4" by (rule calcFee_100_three_and_a_half)
qed

theorem calcFee_rounds_double_quotient_witness:
  "divide_by (multiply (of_int 3500) (3152519739159347 / 4503599627370496)) 100 = Finite (49 / 2)
   \<and> calcFee 3500 (3152519739159347 / 4503599627370496) = Finite 25
   \<and> \<bar>1000 * 5 :: int\<bar> < 2 ^ 53
   \<and> calcFee 1000 5 = Finite 50
   \<and> calcFee 150 1 = Finite 2
   \<and> calcFee (- 250) 1 = Finite (- 2)"
proof -
  have m: "multiply 3500 (3152519739159347 / 4503599627370496) = Finite 2450"
    unfolding multiply_def
    by (rule toNumber_eqI [where e = 11 and m = 5387606976102400]) simp_all
  have d: "toNumber (49 / 2) = Finite (49 / 2)"
    by (rule toNumber_eqI [where e = 4 and m = 6896136929411072]) simp_all
  have q: "divide_by (multiply (of_int 3500) (3152519739159347 / 4503599627370496)) 100
           = Finite (49 / 2)"
    by (simp add: m divide_by_def d)
  have "calcFee 3500 (3152519739159347 / 4503599627370496) = Finite (of_int (24 + 1))"
    using q calcFee_rounds_double_quotient
      [of 3500 "3152519739159347 / 4503599627370496" "49 / 2" 1]
    by auto
  then have a: "calcFee 3500 (3152519739159347 / 4503599627370496) = Finite 25" by simp
  have b: "calcFee 1000 5 = Finite 50"
    using calcFee_rounds_double_quotient [of 1000 0 0 5]
    by (simp add: floor_numeral_quotient)
  have c: "calcFee 150 1 = Finite 2"
    using calcFee_rounds_double_quotient [of 150 0 0 1]
    by (simp add: floor_numeral_quotient)
  have e: "calcFee (- 250) 1 = Finite (- 2)"
    using calcFee_rounds_double_quotient [of "- 250" 0 0 1]
    by (simp add: floor_numeral_quotient)
  show ?thesis using q a b c e by simp
qed

text \<open>
  As stated, for the exact \<open>amount * fee / 100\<close> and every percentage, C9 fails:
  \<open>calcFee(5500, 0.7)\<close> is 38 although \<open>5500 * 0.7 / 100 = 38.5\<close> rounds to 39 (the Number
  0.7 lies below 7/10 and the product is rounded down); and \<open>calcFee(3500, 0.7)\<close> is 25
  although the exact quotient for the Number 0.7 lies below 24.5 (the product is rounded
  up to 2450).
\<close>

theorem calcFee_exact_quotient_counterexample:
  "toNumber (7 / 10) = Finite (3152519739159347 / 4503599627370496)
   \<and> calcFee 5500 (3152519739159347 / 4503599627370496) = Finite 38
   \<and> \<lfloor>(5500 :: rat) * (7 / 10) / 100 + 1 / 2\<rfloor> = 39
   \<and> calcFee 3500 (3152519739159347 / 4503599627370496) = Finite 25
   \<and> \<lfloor>(3500 :: rat) * (3152519739159347 / 4503599627370496) / 100 + 1 / 2\<rfloor> = 24"
proof -
  have a: "\<lfloor>(5500 :: rat) * (7 / 10) / 100 + 1 / 2\<rfloor> = 39" by simp
  have b: "\<lfloor>(3500 :: rat) * (3152519739159347 / 4503599627370496) / 100 + 1 / 2\<rfloor> = 24"
    by (rule floor_unique) simp_all
  show ?thesis
    using double_of_seven_tenths calcFee_5500_seven_tenths calcFee_3500_seven_tenths a b
    by simp
qed

text \<open>Two more percentages whose Number lies below the decimal: 2.3 and 1.15.\<close>

lemma calcFee_further_examples:
  "toNumber (23 / 10) = Finite (2589569785738035 / 1125899906842624)
   \<and> calcFee 1500 (2589569785738035 / 1125899906842624) = Finite 34
   \<and> toNumber (115 / 100) = Finite (2589569785738035 / 2251799813685248)
   \<and> calcFee 3000 (2589569785738035 / 2251799813685248) = Finite 34"
proof -
  have l1: "toNumber (23 / 10) = Finite (2589569785738035 / 1125899906842624)"
    by (rule toNumber_eqI [where e = 1 and m = 5179139571476070]) simp_all
  have l2: "toNumber (115 / 100) = Finite (2589569785738035 / 2251799813685248)"
    by (rule toNumber_eqI [where e = 0 and m = 5179139571476070]) simp_all
  have m1: "multiply 1500 (2589569785738035 / 1125899906842624)
            = Finite (7586630231654399 / 2199023255552)"
    unfolding multiply_def
    by (rule toNumber_eqI [where e = 11 and m = 7586630231654399]) simp_all
  have m2: "multiply 3000 (2589569785738035 / 2251799813685248)
            = Finite (7586630231654399 / 2199023255552)"
    unfolding multiply_def
    by (rule toNumber_eqI [where e = 11 and m = 7586630231654399]) simp_all
  have d: "toNumber (7586630231654399 / 219902325555200)
           = Finite (4855443348258815 / 140737488355328)"
    by (rule toNumber_eqI [where e = 5 and m = 4855443348258815]) simp_all
  have c1: "calcFee 1500 (2589569785738035 / 1125899906842624) = Finite 34"
    by (simp add: calcFee_def m1 divide_by_def d Math_round_def floor_numeral_quotient)
  have c2: "calcFee 3000 (2589569785738035 / 2251799813685248) = Finite 34"
    by (simp add: calcFee_def m2 divide_by_def d Math_round_def floor_numeral_quotient)
  show ?thesis using l1 l2 c1 c2 by simp
qed

subsection \<open>Legacy payment method types\<close>

text \<open>
  C10: for every legacy type other than \<open>BANK_TRANSFER\<close>, converting to the pair of service
  and type and back gives the legacy type again; \<open>BANK_TRANSFER\<close> converts to
  (opencollective, manual), for which \<open>getLegacyPaymentMethodType\<close> returns \<open>undefined\<close>.
\<close>

theorem legacy_type_round_trip:
  "(t \<noteq> BANK_TRANSFER \<longrightarrow>
      getLegacyPaymentMethodType (getServiceTypeFromLegacyPaymentMethodType t) = Some t)
   \<and> getServiceTypeFromLegacyPaymentMethodType BANK_TRANSFER = (SERVICE_OPENCOLLECTIVE, TYPE_MANUAL)
   \<and> getLegacyPaymentMethodType (getServiceTypeFromLegacyPaymentMethodType BANK_TRANSFER) = None"
  by (cases t) (simp_all add: getLegacyPaymentMethodType_def)

theorem legacy_type_round_trip_witness:
  "ADDED_FUNDS \<noteq> BANK_TRANSFER
   \<and> getLegacyPaymentMethodType (SERVICE_OPENCOLLECTIVE, TYPE_HOST) = Some ADDED_FUNDS"
  using legacy_type_round_trip [of ADDED_FUNDS] by simp

end
